theory Spec2Isabelle
  imports Main
begin

section \<open>Messages\<close>

text \<open>
  The user-visible messages of the sources are Japanese string literals. They are
  modelled as the constructors of one datatype, named after what the literal says,
  so that two different literals stay different values.
\<close>

datatype message =
    ApiKeyNotConfigured        \<comment> \<open>route.ts line 11\<close>
  | SttTokenRouteFailed        \<comment> \<open>route.ts line 45\<close>
  | NotRecording               \<comment> \<open>recorder.ts line 98\<close>
  | AlreadyRecording           \<comment> \<open>recorder.ts line 50\<close>
  | MicDenied                  \<comment> \<open>recorder.ts line 64\<close>
  | MicFailed                  \<comment> \<open>recorder.ts line 65\<close>
  | SttTokenFetchFailed        \<comment> \<open>useDeepgram.ts line 109\<close>
  | DeepgramConnectionError    \<comment> \<open>useDeepgram.ts line 186\<close>
  | DeepgramReconnectFailed    \<comment> \<open>useDeepgram.ts lines 206-208\<close>
  | TtsFailed                  \<comment> \<open>useInterviewEngine line 129\<close>
  | AiResponseFailed           \<comment> \<open>useInterviewEngine line 172\<close>
  | SessionStartFailed         \<comment> \<open>useInterviewEngine line 352\<close>

section \<open>The STT token route (src/app/api/stt/token/route.ts)\<close>

text \<open>
  \<open>createProjectKey\<close> is a call into the Deepgram SDK. Its outcome is an input of the
  model: it throws, or it returns a \<open>result\<close> whose \<open>key\<close> may be missing
  (\<open>result?.key\<close> undefined).
\<close>

datatype key_outcome = KeyThrows | KeyReturned "string option"

datatype route_body =
    TokenBody (token: string) (url: string)
  | ErrorBody message

record http_response =
  status :: nat
  body :: route_body

definition listen_url :: string where
  "listen_url = ''wss://api.deepgram.com/v1/listen''"

text \<open>
  \<open>GET\<close>: \<open>apiKey\<close> is \<open>process.env.DEEPGRAM_API_KEY\<close> (\<open>None\<close> when unset);
  \<open>!apiKey\<close> is also true of the empty string. \<open>NextResponse.json\<close> without a status
  answers 200.
\<close>

definition GET :: "string option \<Rightarrow> key_outcome \<Rightarrow> http_response" where
  "GET apiKey outcome =
     (case apiKey of
        None \<Rightarrow> \<lparr>status = 500, body = ErrorBody ApiKeyNotConfigured\<rparr>
      | Some k \<Rightarrow>
          if k = [] then \<lparr>status = 500, body = ErrorBody ApiKeyNotConfigured\<rparr>
          else (case outcome of
                  KeyReturned r \<Rightarrow>
                    \<lparr>status = 200,
                     body = TokenBody (case r of Some t \<Rightarrow> t | None \<Rightarrow> k) listen_url\<rparr>
                | KeyThrows \<Rightarrow>
                    \<lparr>status = 200, body = TokenBody k listen_url\<rparr>))"

section \<open>The capture pipeline (src/lib/audio/recorder.ts)\<close>

text \<open>
  An audio chunk is a list of bytes; a \<open>Blob\<close> built from chunks keeps them in order
  together with its MIME type. \<open>mediaRecorder\<close> holds the MIME type of the
  \<open>MediaRecorder\<close> when there is one; \<open>stream\<close> and \<open>dataCallback\<close> say whether the
  field is non-null.
\<close>

type_synonym chunk = "nat list"

record blob =
  parts :: "chunk list"
  mime :: string

record audio_recorder =
  mediaRecorder :: "string option"
  audioChunks :: "chunk list"
  stream :: bool
  dataCallback :: bool
  recording :: bool

definition new_AudioRecorder :: audio_recorder where
  "new_AudioRecorder =
     \<lparr>mediaRecorder = None, audioChunks = [], stream = False,
      dataCallback = False, recording = False\<rparr>"

text \<open>\<open>getSupportedMimeType\<close>; \<open>supported\<close> lists the types \<open>isTypeSupported\<close> accepts.\<close>

definition getSupportedMimeType :: "string list \<Rightarrow> string" where
  "getSupportedMimeType supported =
     (if ''audio/webm;codecs=opus'' \<in> set supported then ''audio/webm;codecs=opus''
      else if ''audio/webm'' \<in> set supported then ''audio/webm''
      else if ''audio/mp4'' \<in> set supported then ''audio/mp4''
      else [])"

datatype mic_outcome = MicGranted | MicNotAllowed | MicOtherFailure

text \<open>
  \<open>start\<close>. A \<open>MediaRecorder\<close> built without a \<open>mimeType\<close> option reports the
  browser's default type; \<open>dflt\<close> is that type.
\<close>

definition recorder_start ::
  "mic_outcome \<Rightarrow> string list \<Rightarrow> string \<Rightarrow> audio_recorder \<Rightarrow> message + audio_recorder" where
  "recorder_start mic supported dflt r =
     (if recording r then Inl AlreadyRecording
      else (case mic of
              MicNotAllowed \<Rightarrow> Inl MicDenied
            | MicOtherFailure \<Rightarrow> Inl MicFailed
            | MicGranted \<Rightarrow>
                (let mimeType = getSupportedMimeType supported
                 in Inr (r\<lparr>stream := True, audioChunks := [],
                           mediaRecorder := Some (if mimeType \<noteq> [] then mimeType else dflt),
                           recording := True\<rparr>))))"

text \<open>The \<open>ondataavailable\<close> handler installed by \<open>start\<close>.\<close>

definition ondataavailable :: "chunk \<Rightarrow> audio_recorder \<Rightarrow> audio_recorder" where
  "ondataavailable c r =
     (if length c > 0 then r\<lparr>audioChunks := audioChunks r @ [c]\<rparr> else r)"

text \<open>
  \<open>stop\<close>. The promise rejects when there is no \<open>MediaRecorder\<close> or the recorder is
  not recording. Otherwise \<open>MediaRecorder.stop()\<close> delivers the data gathered since the
  last chunk (\<open>flush\<close>) to \<open>ondataavailable\<close> and then fires \<open>onstop\<close>, which builds the
  blob, empties the chunk list and clears \<open>recording\<close>.
\<close>

definition recorder_stop :: "chunk \<Rightarrow> audio_recorder \<Rightarrow> message + (blob \<times> audio_recorder)" where
  "recorder_stop flush r =
     (case mediaRecorder r of
        None \<Rightarrow> Inl NotRecording
      | Some mt \<Rightarrow>
          if \<not> recording r then Inl NotRecording
          else (let r1 = ondataavailable flush r;
                    mimeType = (if mt \<noteq> [] then mt else ''audio/webm;codecs=opus'')
                in Inr (\<lparr>parts = audioChunks r1, mime = mimeType\<rparr>,
                        r1\<lparr>audioChunks := [], recording := False\<rparr>)))"

definition recorder_isRecording :: "audio_recorder \<Rightarrow> bool" where
  "recorder_isRecording r = recording r"

definition onDataAvailable :: "audio_recorder \<Rightarrow> audio_recorder" where
  "onDataAvailable r = r\<lparr>dataCallback := True\<rparr>"

definition recorder_destroy :: "audio_recorder \<Rightarrow> audio_recorder" where
  "recorder_destroy r =
     r\<lparr>stream := False, mediaRecorder := None, audioChunks := [],
       dataCallback := False, recording := False\<rparr>"

subsection \<open>The hook around it (useAudioRecorder)\<close>

record recorder_hook =
  isRecording :: bool
  audioBlob :: "blob option"
  rec_error :: "message option"
  recorderRef :: "audio_recorder option"
  chunkCallbackRef :: bool

definition useAudioRecorder :: recorder_hook where
  "useAudioRecorder =
     \<lparr>isRecording = False, audioBlob = None, rec_error = None,
      recorderRef = None, chunkCallbackRef = False\<rparr>"

definition startRecording ::
  "mic_outcome \<Rightarrow> string list \<Rightarrow> string \<Rightarrow> recorder_hook \<Rightarrow> recorder_hook" where
  "startRecording mic supported dflt h =
     (let h1 = h\<lparr>rec_error := None, audioBlob := None\<rparr>;
          h2 = (case recorderRef h1 of
                  Some old \<Rightarrow> h1\<lparr>recorderRef := Some (recorder_destroy old)\<rparr>
                | None \<Rightarrow> h1);
          recorder = (if chunkCallbackRef h2 then onDataAvailable new_AudioRecorder
                      else new_AudioRecorder)
      in case recorder_start mic supported dflt recorder of
           Inr r \<Rightarrow> h2\<lparr>recorderRef := Some r, isRecording := True\<rparr>
         | Inl m \<Rightarrow> h2\<lparr>rec_error := Some m, isRecording := False\<rparr>)"

definition stopRecording :: "chunk \<Rightarrow> recorder_hook \<Rightarrow> blob option \<times> recorder_hook" where
  "stopRecording flush h =
     (case recorderRef h of
        None \<Rightarrow> (None, h)
      | Some r \<Rightarrow>
          if \<not> recorder_isRecording r then (None, h)
          else (case recorder_stop flush r of
                  Inr (b, r') \<Rightarrow>
                    (Some b, h\<lparr>recorderRef := Some r', audioBlob := Some b,
                               isRecording := False\<rparr>)
                | Inl m \<Rightarrow>
                    (None, h\<lparr>rec_error := Some m, isRecording := False\<rparr>)))"

definition onChunkAvailable :: "recorder_hook \<Rightarrow> recorder_hook" where
  "onChunkAvailable h =
     (let h1 = h\<lparr>chunkCallbackRef := True\<rparr>
      in case recorderRef h1 of
           Some r \<Rightarrow> h1\<lparr>recorderRef := Some (onDataAvailable r)\<rparr>
         | None \<Rightarrow> h1)"

section \<open>The transcription client (src/hooks/useDeepgram.ts)\<close>

text \<open>
  \<open>wsRef\<close> holds the \<open>readyState\<close> of the socket the hook refers to, if any. The
  \<open>setTimeout\<close> calls of \<open>onclose\<close> are recorded: \<open>reconnectDelays\<close> lists the delay
  of every reconnection timer ever requested, in order, and \<open>pendingReconnects\<close> counts
  the timers that have not fired yet. \<open>wire\<close> lists what was sent over the socket.
\<close>

datatype ready_state = CONNECTING | OPEN | CLOSING | CLOSED

datatype wire_msg = CloseStream | Audio chunk

record deepgram_hook =
  isConnected :: bool
  transcript :: string
  fullTranscript :: string
  dg_error :: "message option"
  wsRef :: "ready_state option"
  fullTranscriptRef :: string
  reconnectAttemptRef :: nat
  intentionalCloseRef :: bool
  reconnectDelays :: "nat list"
  pendingReconnects :: nat
  wire :: "wire_msg list"

definition useDeepgram :: deepgram_hook where
  "useDeepgram =
     \<lparr>isConnected = False, transcript = [], fullTranscript = [], dg_error = None,
      wsRef = None, fullTranscriptRef = [], reconnectAttemptRef = 0,
      intentionalCloseRef = False, reconnectDelays = [], pendingReconnects = 0,
      wire = []\<rparr>"

text \<open>
  \<open>String.prototype.trim\<close> on the ASCII white space characters (space, tab, line
  feed, vertical tab, form feed, carriage return).
\<close>

definition is_space :: "char \<Rightarrow> bool" where
  "is_space c = (c \<in> set [CHR '' '', CHR 0x09, CHR 0x0A, CHR 0x0B, CHR 0x0C, CHR 0x0D])"

definition trim :: "string \<Rightarrow> string" where
  "trim s = rev (dropWhile is_space (rev (dropWhile is_space s)))"

definition reset :: "deepgram_hook \<Rightarrow> deepgram_hook" where
  "reset d = d\<lparr>fullTranscriptRef := [], fullTranscript := [], transcript := [],
               dg_error := None\<rparr>"

text \<open>
  \<open>connect\<close>. \<open>tok\<close> is the outcome of \<open>fetchToken\<close>: \<open>Inl m\<close> when it throws an
  error with message \<open>m\<close>, \<open>Inr t\<close> when it returns the token \<open>t\<close>. A new socket
  starts in state \<open>CONNECTING\<close>.
\<close>

definition connect :: "message + string \<Rightarrow> deepgram_hook \<Rightarrow> deepgram_hook" where
  "connect tok d =
     (if wsRef d = Some OPEN then d
      else
        let d1 = (case wsRef d of
                    Some rs \<Rightarrow> if rs \<noteq> CLOSED then d\<lparr>wsRef := None\<rparr> else d
                  | None \<Rightarrow> d);
            d2 = d1\<lparr>dg_error := None, intentionalCloseRef := False\<rparr>
        in case tok of
             Inr t \<Rightarrow> d2\<lparr>wsRef := Some CONNECTING\<rparr>
           | Inl m \<Rightarrow> d2\<lparr>dg_error := Some m, isConnected := False\<rparr>)"

definition ws_onopen :: "deepgram_hook \<Rightarrow> deepgram_hook" where
  "ws_onopen d = d\<lparr>isConnected := True, reconnectAttemptRef := 0\<rparr>"

text \<open>
  A message from the service: text that does not parse, or a JSON object with its
  \<open>type\<close>, the transcripts of \<open>channel.alternatives\<close> (\<open>None\<close> without a channel) and
  \<open>is_final\<close>.
\<close>

datatype dg_message =
    NotJson
  | Json (mtype: string) (channel: "string list option") (is_final: bool)

definition ws_onmessage :: "dg_message \<Rightarrow> deepgram_hook \<Rightarrow> deepgram_hook" where
  "ws_onmessage m d =
     (case m of
        NotJson \<Rightarrow> d
      | Json ty ch fin \<Rightarrow>
          if ty = ''Results'' then
            (case ch of
               None \<Rightarrow> d
             | Some alts \<Rightarrow>
                 (case alts of
                    [] \<Rightarrow> d
                  | transcriptText # _ \<Rightarrow>
                      if fin then
                        (let d1 = (if trim transcriptText \<noteq> []
                                   then d\<lparr>fullTranscriptRef := fullTranscriptRef d @ transcriptText,
                                          fullTranscript := fullTranscriptRef d @ transcriptText\<rparr>
                                   else d)
                         in d1\<lparr>transcript := []\<rparr>)
                      else d\<lparr>transcript := transcriptText\<rparr>))
          else d)"

definition ws_onerror :: "deepgram_hook \<Rightarrow> deepgram_hook" where
  "ws_onerror d = d\<lparr>dg_error := Some DeepgramConnectionError, isConnected := False\<rparr>"

text \<open>\<open>onclose\<close> with the close code of the event.\<close>

definition ws_onclose :: "nat \<Rightarrow> deepgram_hook \<Rightarrow> deepgram_hook" where
  "ws_onclose code d =
     (let d1 = d\<lparr>isConnected := False, wsRef := None\<rparr>
      in if \<not> intentionalCloseRef d1 \<and> code \<noteq> 1000 then
           (if reconnectAttemptRef d1 < 3 then
              (let attempt = reconnectAttemptRef d1 + 1;
                   delay = min (1000 * 2 ^ attempt) 8000
               in d1\<lparr>reconnectAttemptRef := attempt,
                      reconnectDelays := reconnectDelays d1 @ [delay],
                      pendingReconnects := pendingReconnects d1 + 1\<rparr>)
            else d1\<lparr>dg_error := Some DeepgramReconnectFailed\<rparr>)
         else d1)"

text \<open>The callback of a reconnection timer: it calls \<open>connect\<close>.\<close>

definition reconnect_timeout :: "message + string \<Rightarrow> deepgram_hook \<Rightarrow> deepgram_hook" where
  "reconnect_timeout tok d =
     (if pendingReconnects d = 0 then d
      else connect tok (d\<lparr>pendingReconnects := pendingReconnects d - 1\<rparr>))"

definition disconnect :: "deepgram_hook \<Rightarrow> deepgram_hook" where
  "disconnect d =
     (let d1 = d\<lparr>intentionalCloseRef := True\<rparr>;
          d2 = (case wsRef d1 of
                  Some rs \<Rightarrow>
                    (if rs = OPEN then d1\<lparr>wire := wire d1 @ [CloseStream]\<rparr> else d1)
                      \<lparr>wsRef := None\<rparr>
                | None \<Rightarrow> d1)
      in d2\<lparr>isConnected := False\<rparr>)"

definition sendAudio :: "chunk \<Rightarrow> deepgram_hook \<Rightarrow> deepgram_hook" where
  "sendAudio c d =
     (if wsRef d = Some OPEN then d\<lparr>wire := wire d @ [Audio c]\<rparr> else d)"


section \<open>The playback queue (class AudioPlayer)\<close>

text \<open>
  An audio buffer is a list of bytes. \<open>played\<close> lists the buffers that were decoded
  and played to the end. Whether a buffer decodes is an input (\<open>dec\<close>).
\<close>

type_synonym audio = "nat list"

record audio_player =
  audioContext :: bool
  audioQueue :: "audio list"
  isPlaying :: bool
  currentSource :: bool
  aborted :: bool
  played :: "audio list"

definition new_AudioPlayer :: audio_player where
  "new_AudioPlayer =
     \<lparr>audioContext = False, audioQueue = [], isPlaying = False,
      currentSource = False, aborted = False, played = []\<rparr>"

definition player_init :: "audio_player \<Rightarrow> audio_player" where
  "player_init p = (if audioContext p then p else p\<lparr>audioContext := True, aborted := False\<rparr>)"

text \<open>\<open>playBuffer\<close>, awaited to the end of the buffer (\<open>onended\<close> clears the source).\<close>

definition playBuffer :: "(audio \<Rightarrow> bool) \<Rightarrow> audio \<Rightarrow> audio_player \<Rightarrow> audio_player" where
  "playBuffer dec x p =
     (if \<not> audioContext p \<or> aborted p then p
      else if dec x then p\<lparr>currentSource := False, played := played p @ [x]\<rparr>
      else p\<lparr>currentSource := False\<rparr>)"

text \<open>The \<open>while\<close> loop of \<open>processQueue\<close>; the list is the queue that is left.\<close>

fun drainQueue :: "(audio \<Rightarrow> bool) \<Rightarrow> audio list \<Rightarrow> audio_player \<Rightarrow> audio_player" where
  "drainQueue dec [] p = p"
| "drainQueue dec (x # q) p =
     (if aborted p then p else drainQueue dec q (playBuffer dec x (p\<lparr>audioQueue := q\<rparr>)))"

definition processQueue :: "(audio \<Rightarrow> bool) \<Rightarrow> audio_player \<Rightarrow> audio_player" where
  "processQueue dec p =
     (if \<not> audioContext p then p
      else (drainQueue dec (audioQueue p) (p\<lparr>isPlaying := True\<rparr>))\<lparr>isPlaying := False\<rparr>)"

definition player_play :: "(audio \<Rightarrow> bool) \<Rightarrow> audio \<Rightarrow> audio_player \<Rightarrow> audio_player" where
  "player_play dec audioData p =
     (let p1 = (if \<not> audioContext p then player_init p else p);
          p2 = p1\<lparr>audioQueue := audioQueue p1 @ [audioData]\<rparr>
      in if \<not> isPlaying p2 then processQueue dec p2 else p2)"

text \<open>\<open>stop\<close>, and the callback of the zero-delay timer it sets.\<close>

definition player_stop :: "audio_player \<Rightarrow> audio_player" where
  "player_stop p = p\<lparr>aborted := True, audioQueue := [], currentSource := False,
                     isPlaying := False\<rparr>"

definition player_stop_timeout :: "audio_player \<Rightarrow> audio_player" where
  "player_stop_timeout p = p\<lparr>aborted := False\<rparr>"

section \<open>The orchestrator (useInterviewEngine)\<close>

datatype phase = Idle | Connecting | Interviewing | Processing | Completed | Error

datatype role = AI | Respondent

record interview_message =
  role :: role
  content :: string
  timestamp :: int

text \<open>
  What the engine does to the outside is recorded in \<open>trace\<close>, in order: every
  \<open>setPhase\<close>, the two speaking flags after every change of one of them, every
  request to a collaborator, the teardown calls, every arming of the silence timer
  (with the time of arming) and every end-of-turn signal (with its time).
\<close>

datatype effect =
    SetPhase phase
  | Flags bool bool
  | CallStart
  | CallChat string
  | CallTts string
  | CallScore
  | StopCapture
  | Disconnect
  | StopPlayback
  | CancelSilence
  | ArmSilence int
  | EndOfTurn int

text \<open>The pending \<open>setTimeout\<close> behind \<open>silenceTimerRef\<close>; a fired timer keeps its id.\<close>

record silence_timer =
  deadline :: int
  fired :: bool

text \<open>
  A callback reads the variables of the render that created it, not the current
  ones. These values are inputs of the handlers that read them:
  \<open>cl_isRecording\<close> is \<open>recorder.isRecording\<close> as the silence-timer callback sees it,
  \<open>cl_fullTranscript\<close> is \<open>deepgram.fullTranscript\<close> as \<open>handleUserFinishedSpeaking\<close>
  sees it, \<open>cl_end_isRecording\<close> is \<open>recorder.isRecording\<close> as the
  \<open>endInterviewInternal\<close> reached from \<open>getAIResponse\<close> sees it.
\<close>

record closure =
  cl_isRecording :: bool
  cl_fullTranscript :: string
  cl_end_isRecording :: bool

text \<open>
  The state of the hook: its React state, its refs, the two sub-hooks and the
  trace. Three requests keep the engine waiting in a phase of their own: the start
  request (\<open>connecting\<close>), the chat request and the score request (\<open>processing\<close>).
  A function that awaits one of them stops there and is resumed by the response,
  so other events can be handled in between. \<open>startPending\<close> and \<open>scorePending\<close>
  count the start and score requests in flight; \<open>chatPending\<close> lists the chat
  requests in flight, each with the message sent and the closure of the call.
\<close>

record engine =
  phase :: phase
  messages :: "interview_message list"
  currentTranscript :: string
  elapsedTime :: int
  turnCount :: nat
  isAISpeaking :: bool
  isUserSpeaking :: bool
  error :: "message option"
  playerRef :: "audio_player option"
  timerRef :: bool
  startTimeRef :: int
  silenceTimerRef :: "silence_timer option"
  isEndingRef :: bool
  lastTranscriptRef :: string
  phaseRef :: phase
  recorder :: recorder_hook
  deepgram :: deepgram_hook
  trace :: "effect list"
  startPending :: nat
  chatPending :: "(string \<times> closure) list"
  scorePending :: nat

definition useInterviewEngine :: engine where
  "useInterviewEngine =
     \<lparr>phase = Idle, messages = [], currentTranscript = [], elapsedTime = 0,
      turnCount = 0, isAISpeaking = False, isUserSpeaking = False, error = None,
      playerRef = None, timerRef = False, startTimeRef = 0, silenceTimerRef = None,
      isEndingRef = False, lastTranscriptRef = [], phaseRef = Idle,
      recorder = useAudioRecorder, deepgram = useDeepgram, trace = [],
      startPending = 0, chatPending = [], scorePending = 0\<rparr>"

definition MAX_INTERVIEW_DURATION_MS :: int where
  "MAX_INTERVIEW_DURATION_MS = 5 * 60 * 1000"

definition SILENCE_THRESHOLD_MS :: int where
  "SILENCE_THRESHOLD_MS = 2000"

text \<open>
  The outcomes of the other awaited calls of one handler run: the speech request
  (\<open>None\<close> when it fails or the response is not ok), whether a buffer decodes, the
  token request of \<open>connect\<close> (\<open>Inl m\<close> when it throws an error with message \<open>m\<close>),
  the microphone, the MIME types the browser supports and its default type, and
  the data the \<open>MediaRecorder\<close> flushes when it stops. These calls are answered
  within the step that makes them.
\<close>

record env =
  tts :: "audio option"
  decodes :: "audio \<Rightarrow> bool"
  sttToken :: "message + string"
  mic :: mic_outcome
  mimeTypes :: "string list"
  defaultMime :: string
  flushed :: chunk

definition emit :: "effect \<Rightarrow> engine \<Rightarrow> engine" where
  "emit x s = s\<lparr>trace := trace s @ [x]\<rparr>"

definition setPhase :: "phase \<Rightarrow> engine \<Rightarrow> engine" where
  "setPhase p s = emit (SetPhase p) (s\<lparr>phase := p\<rparr>)"

definition setIsAISpeaking :: "bool \<Rightarrow> engine \<Rightarrow> engine" where
  "setIsAISpeaking b s = emit (Flags b (isUserSpeaking s)) (s\<lparr>isAISpeaking := b\<rparr>)"

definition setIsUserSpeaking :: "bool \<Rightarrow> engine \<Rightarrow> engine" where
  "setIsUserSpeaking b s = emit (Flags (isAISpeaking s) b) (s\<lparr>isUserSpeaking := b\<rparr>)"

text \<open>
  While a handler waits, React renders the pending state and runs the effect of
  lines 81-83, which copies \<open>phase\<close> into \<open>phaseRef\<close>.
\<close>

definition rerender :: "engine \<Rightarrow> engine" where
  "rerender s = s\<lparr>phaseRef := phase s\<rparr>"

definition startTimer :: "int \<Rightarrow> engine \<Rightarrow> engine" where
  "startTimer now s = s\<lparr>startTimeRef := now, timerRef := True\<rparr>"

definition stopTimer :: "engine \<Rightarrow> engine" where
  "stopTimer s = (if timerRef s then s\<lparr>timerRef := False\<rparr> else s)"

text \<open>
  \<open>speakText\<close>. A failed request, a response that is not ok and any failure of the
  playback end in the \<open>catch\<close>, which only logs; \<open>finally\<close> clears the flag.
\<close>

definition speakText :: "string \<Rightarrow> env \<Rightarrow> engine \<Rightarrow> engine" where
  "speakText text e s =
     (let s1 = rerender (emit (CallTts text) (setIsAISpeaking True s));
          s2 = (case tts e of
                  None \<Rightarrow> s1
                | Some audioData \<Rightarrow>
                    (let p = (case playerRef s1 of
                                None \<Rightarrow> player_init new_AudioPlayer
                              | Some q \<Rightarrow> q)
                     in s1\<lparr>playerRef := Some (player_play (decodes e) audioData p)\<rparr>))
      in setIsAISpeaking False s2)"

text \<open>
  \<open>endInterviewInternal\<close> up to the score request (lines 393-431); \<open>rec\<close> is
  \<open>recorder.isRecording\<close> as this instance of the function sees it. While the
  request is awaited the zero-delay timer of \<open>AudioPlayer.stop\<close> fires.
\<close>

definition endInterviewInternal :: "bool \<Rightarrow> env \<Rightarrow> engine \<Rightarrow> engine" where
  "endInterviewInternal rec e s =
     (if isEndingRef s then s
      else
        let s1 = stopTimer (setPhase Processing (s\<lparr>isEndingRef := True\<rparr>));
            s2 = (if rec
                  then rerender (emit StopCapture
                         (s1\<lparr>recorder := snd (stopRecording (flushed e) (recorder s1))\<rparr>))
                  else s1);
            s3 = emit Disconnect (s2\<lparr>deepgram := disconnect (deepgram s2)\<rparr>);
            s4 = (case playerRef s3 of
                    Some p \<Rightarrow> emit StopPlayback (s3\<lparr>playerRef := Some (player_stop p)\<rparr>)
                  | None \<Rightarrow> s3);
            s5 = (if silenceTimerRef s4 \<noteq> None
                  then emit CancelSilence (s4\<lparr>silenceTimerRef := None\<rparr>)
                  else s4);
            s6 = setIsUserSpeaking False (setIsAISpeaking False s5);
            s7 = rerender (emit CallScore s6);
            s8 = s7\<lparr>playerRef := map_option player_stop_timeout (playerRef s7)\<rparr>
        in s8\<lparr>scorePending := scorePending s8 + 1\<rparr>)"

text \<open>
  The rest of \<open>endInterviewInternal\<close> (lines 433-437), run when the score request
  has an outcome: the \<open>try\<close> and the \<open>catch\<close> both set \<open>completed\<close>.
\<close>

definition endInterviewInternal_resumed :: "bool \<Rightarrow> engine \<Rightarrow> engine" where
  "endInterviewInternal_resumed ok s = (if ok then setPhase Completed s else setPhase Completed s)"

text \<open>\<open>endInterview\<close>, called from the page with the functions of the latest render.\<close>

definition endInterview :: "env \<Rightarrow> engine \<Rightarrow> engine" where
  "endInterview e s = endInterviewInternal (isRecording (recorder s)) e s"

definition resetSilenceTimer :: "int \<Rightarrow> engine \<Rightarrow> engine" where
  "resetSilenceTimer now s =
     emit (ArmSilence now)
       (s\<lparr>silenceTimerRef := Some \<lparr>deadline = now + SILENCE_THRESHOLD_MS, fired = False\<rparr>\<rparr>)"

text \<open>
  \<open>startListening\<close>. Neither \<open>deepgram.connect\<close> nor \<open>recorder.startRecording\<close> throws
  (each catches its own errors), so the \<open>catch\<close> of lines 288-291 is never entered.
\<close>

definition startListening :: "int \<Rightarrow> env \<Rightarrow> engine \<Rightarrow> engine" where
  "startListening now e s =
     (if phaseRef s \<noteq> Interviewing then s
      else
        let s1 = (setIsUserSpeaking True s)\<lparr>currentTranscript := []\<rparr>;
            s2 = rerender (s1\<lparr>deepgram := connect (sttToken e) (deepgram s1)\<rparr>);
            s3 = s2\<lparr>recorder := onChunkAvailable (recorder s2)\<rparr>;
            s4 = rerender (s3\<lparr>recorder :=
                     startRecording (mic e) (mimeTypes e) (defaultMime e) (recorder s3)\<rparr>)
        in resetSilenceTimer now s4)"

text \<open>\<open>getAIResponse\<close> up to the chat request (lines 151-169).\<close>

definition getAIResponse :: "string \<Rightarrow> closure \<Rightarrow> engine \<Rightarrow> engine" where
  "getAIResponse userMessage cl s =
     (if phaseRef s \<noteq> Interviewing then s
      else
        let s1 = rerender (emit (CallChat userMessage) (setPhase Processing s))
        in s1\<lparr>chatPending := chatPending s1 @ [(userMessage, cl)]\<rparr>)"

text \<open>
  The rest of \<open>getAIResponse\<close> (lines 171-207), run when the chat request has an
  outcome: \<open>Inl m\<close> is a failed request or a response that is not ok, which ends in
  the \<open>catch\<close>; \<open>Inr (aiText, shouldEnd)\<close> is the parsed response.
\<close>

definition getAIResponse_resumed ::
  "closure \<Rightarrow> message + (string \<times> bool) \<Rightarrow> int \<Rightarrow> env \<Rightarrow> engine \<Rightarrow> engine" where
  "getAIResponse_resumed cl outcome now e s =
     (case outcome of
        Inl m \<Rightarrow> setPhase Error (s\<lparr>error := Some m\<rparr>)
      | Inr (aiText, shouldEnd) \<Rightarrow>
          (let aiMessage = \<lparr>role = AI, content = aiText, timestamp = now\<rparr>;
               s2 = s\<lparr>messages := messages s @ [aiMessage], turnCount := turnCount s + 1\<rparr>;
               s3 = speakText aiText e (setPhase Interviewing s2)
           in if shouldEnd then endInterviewInternal (cl_end_isRecording cl) e s3
              else startListening now e s3))"

definition handleUserFinishedSpeaking :: "closure \<Rightarrow> int \<Rightarrow> env \<Rightarrow> engine \<Rightarrow> engine" where
  "handleUserFinishedSpeaking cl now e s =
     (let s1 = setIsUserSpeaking False s;
          s2 = rerender (emit StopCapture
                 (s1\<lparr>recorder := snd (stopRecording (flushed e) (recorder s1))\<rparr>));
          s3 = emit Disconnect (s2\<lparr>deepgram := disconnect (deepgram s2)\<rparr>);
          userText = (if trim (cl_fullTranscript cl) \<noteq> [] then trim (cl_fullTranscript cl)
                      else trim (lastTranscriptRef s3))
      in if userText = [] then startListening now e s3
         else
           (let userMessage = \<lparr>role = Respondent, content = userText, timestamp = now\<rparr>;
                s4 = s3\<lparr>messages := messages s3 @ [userMessage], currentTranscript := []\<rparr>
            in getAIResponse userText cl s4))"

text \<open>The callback of the silence timer (lines 221-226), run at time \<open>now\<close>.\<close>

definition silenceTimeout :: "closure \<Rightarrow> int \<Rightarrow> env \<Rightarrow> engine \<Rightarrow> engine" where
  "silenceTimeout cl now e s =
     (if phaseRef s = Interviewing \<and> cl_isRecording cl
      then handleUserFinishedSpeaking cl now e (emit (EndOfTurn now) s)
      else s)"

text \<open>The effect of lines 298-307, run after the transcript of the client changed.\<close>

definition transcriptSync :: "int \<Rightarrow> engine \<Rightarrow> engine" where
  "transcriptSync now s =
     (let combined = fullTranscript (deepgram s) @ transcript (deepgram s);
          s1 = s\<lparr>currentTranscript := combined\<rparr>
      in if combined \<noteq> lastTranscriptRef s1 \<and> trim combined \<noteq> []
         then resetSilenceTimer now (s1\<lparr>lastTranscriptRef := combined\<rparr>)
         else s1)"

text \<open>The effects of lines 310-314 and 317-321.\<close>

definition propagateDeepgramError :: "engine \<Rightarrow> engine" where
  "propagateDeepgramError s =
     (if dg_error (deepgram s) \<noteq> None \<and> phaseRef s = Interviewing
      then s\<lparr>error := dg_error (deepgram s)\<rparr> else s)"

definition propagateRecorderError :: "engine \<Rightarrow> engine" where
  "propagateRecorderError s =
     (if rec_error (recorder s) \<noteq> None \<and> phaseRef s = Interviewing
      then s\<lparr>error := rec_error (recorder s)\<rparr> else s)"

text \<open>
  The greeting used when the start response carries none (a Japanese literal in
  the source, line 357).
\<close>

definition default_greeting :: string where
  "default_greeting = ''Konnichiwa. Interview wo hajimemashou.''"

text \<open>
  \<open>startInterview\<close> up to the start request (lines 327-349). The page calls it
  with the functions of the latest render, so the \<open>phase\<close> it tests is the
  current one.
\<close>

definition startInterview :: "engine \<Rightarrow> engine" where
  "startInterview s =
     (if phase s \<noteq> Idle then s
      else
        let s1 = (setPhase Connecting (s\<lparr>isEndingRef := False\<rparr>))
                   \<lparr>error := None, messages := [], currentTranscript := [],
                    turnCount := 0, elapsedTime := 0\<rparr>;
            s2 = s1\<lparr>playerRef := Some (player_init new_AudioPlayer)\<rparr>;
            s3 = rerender (emit CallStart s2)
        in s3\<lparr>startPending := startPending s3 + 1\<rparr>)"

text \<open>
  The rest of \<open>startInterview\<close> (lines 351-386), run when the start request has an
  outcome: \<open>Inl m\<close> ends in the \<open>catch\<close>, \<open>Inr msg\<close> is the message of the response
  (empty when it has none).
\<close>

definition startInterview_resumed :: "message + string \<Rightarrow> int \<Rightarrow> env \<Rightarrow> engine \<Rightarrow> engine" where
  "startInterview_resumed outcome now e s =
     (case outcome of
        Inl m \<Rightarrow> setPhase Error (s\<lparr>error := Some m\<rparr>)
      | Inr msg \<Rightarrow>
          (let firstMessage = (if msg \<noteq> [] then msg else default_greeting);
               s4 = startTimer now (setPhase Interviewing s);
               aiMessage = \<lparr>role = AI, content = firstMessage, timestamp = now\<rparr>;
               s5 = s4\<lparr>messages := [aiMessage], turnCount := 1\<rparr>;
               s6 = speakText firstMessage e s5
           in startListening now e s6))"

text \<open>
  The callback of the interval timer (lines 96-104). \<open>startTimer\<close> has no
  dependencies, so the \<open>endInterviewInternal\<close> it calls is the one of the first
  render, where \<open>recorder.isRecording\<close> is false.
\<close>

definition timerTick :: "int \<Rightarrow> env \<Rightarrow> engine \<Rightarrow> engine" where
  "timerTick now e s =
     (let elapsed = now - startTimeRef s;
          s1 = s\<lparr>elapsedTime := elapsed\<rparr>
      in if elapsed \<ge> MAX_INTERVIEW_DURATION_MS then endInterviewInternal False e s1
         else s1)"

section \<open>Events\<close>

text \<open>
  The engine is driven by events: the two calls of the page, the responses to the
  start, chat and score requests, the callbacks of the three kinds of timer, what
  the browser reports about the socket, and what the \<open>MediaRecorder\<close> reports. The
  code between two such events runs without interruption.
\<close>

datatype socket_event = WsOpen | WsMessage dg_message | WsError | WsClose nat

text \<open>What the browser does with the socket of the hook, and the handler it calls.\<close>

definition socket :: "socket_event \<Rightarrow> deepgram_hook \<Rightarrow> deepgram_hook" where
  "socket ev d =
     (case ev of
        WsOpen \<Rightarrow> if wsRef d = Some CONNECTING then ws_onopen (d\<lparr>wsRef := Some OPEN\<rparr>) else d
      | WsMessage m \<Rightarrow> if wsRef d = Some OPEN then ws_onmessage m d else d
      | WsError \<Rightarrow> if wsRef d \<noteq> None then ws_onerror d else d
      | WsClose code \<Rightarrow> if wsRef d \<noteq> None then ws_onclose code d else d)"

text \<open>A chunk from the \<open>MediaRecorder\<close>: stored, and handed to \<open>sendAudio\<close>.\<close>

definition audioChunk :: "chunk \<Rightarrow> engine \<Rightarrow> engine" where
  "audioChunk c s =
     (case recorderRef (recorder s) of
        None \<Rightarrow> s
      | Some r \<Rightarrow>
          if \<not> recording r then s
          else (let s1 = s\<lparr>recorder := (recorder s)\<lparr>recorderRef := Some (ondataavailable c r)\<rparr>\<rparr>
                in if length c > 0 \<and> dataCallback r
                   then s1\<lparr>deepgram := sendAudio c (deepgram s1)\<rparr> else s1))"

text \<open>The \<open>onerror\<close> handler of the \<open>MediaRecorder\<close> (recorder.ts lines 83-85).\<close>

definition recorderError :: "engine \<Rightarrow> engine" where
  "recorderError s =
     (case recorderRef (recorder s) of
        None \<Rightarrow> s
      | Some r \<Rightarrow> s\<lparr>recorder := (recorder s)\<lparr>recorderRef := Some (r\<lparr>recording := False\<rparr>)\<rparr>\<rparr>)"

datatype event =
    StartInterview
  | StartResponded "message + string" env
  | EndInterview env
  | ScoreResponded bool
  | TimerTick env
  | SilenceTimeout closure env
  | ChatResponded "message + (string \<times> bool)" env
  | Socket socket_event
  | ReconnectTimeout "message + string"
  | AudioChunk chunk
  | RecorderError

text \<open>
  The render that follows an event, with the effects in the order of the source:
  \<open>phaseRef\<close>, the transcript effect when one of its dependencies changed, the two
  error effects when the error of the hook changed. \<open>s0\<close> is the state before.
\<close>

definition effects :: "int \<Rightarrow> engine \<Rightarrow> engine \<Rightarrow> engine" where
  "effects now s0 s =
     (let s1 = rerender s;
          s2 = (if transcript (deepgram s1) \<noteq> transcript (deepgram s0)
                   \<or> fullTranscript (deepgram s1) \<noteq> fullTranscript (deepgram s0)
                   \<or> isRecording (recorder s1) \<noteq> isRecording (recorder s0)
                then transcriptSync now s1 else s1);
          s3 = (if dg_error (deepgram s2) \<noteq> dg_error (deepgram s0)
                then propagateDeepgramError s2 else s2)
      in if rec_error (recorder s3) \<noteq> rec_error (recorder s0)
         then propagateRecorderError s3 else s3)"

text \<open>
  One event at time \<open>now\<close>. A response resumes the oldest request of its kind in
  flight, and is ignored when there is none. The interval callback runs only
  while the interval is set; the silence callback runs only when its timer is
  pending and due, and the timer has fired from then on.
\<close>

definition handle :: "int \<Rightarrow> event \<Rightarrow> engine \<Rightarrow> engine" where
  "handle now ev s =
     (case ev of
        StartInterview \<Rightarrow> startInterview s
      | StartResponded outcome e \<Rightarrow>
          if startPending s = 0 then s
          else startInterview_resumed outcome now e (s\<lparr>startPending := startPending s - 1\<rparr>)
      | EndInterview e \<Rightarrow> endInterview e s
      | ScoreResponded ok \<Rightarrow>
          if scorePending s = 0 then s
          else endInterviewInternal_resumed ok (s\<lparr>scorePending := scorePending s - 1\<rparr>)
      | TimerTick e \<Rightarrow> if timerRef s then timerTick now e s else s
      | SilenceTimeout cl e \<Rightarrow>
          (case silenceTimerRef s of
             None \<Rightarrow> s
           | Some tm \<Rightarrow>
               if fired tm \<or> now < deadline tm then s
               else silenceTimeout cl now e (s\<lparr>silenceTimerRef := Some (tm\<lparr>fired := True\<rparr>)\<rparr>))
      | ChatResponded outcome e \<Rightarrow>
          (case chatPending s of
             [] \<Rightarrow> s
           | (u, cl) # rest \<Rightarrow> getAIResponse_resumed cl outcome now e (s\<lparr>chatPending := rest\<rparr>))
      | Socket sev \<Rightarrow> s\<lparr>deepgram := socket sev (deepgram s)\<rparr>
      | ReconnectTimeout tok \<Rightarrow> s\<lparr>deepgram := reconnect_timeout tok (deepgram s)\<rparr>
      | AudioChunk c \<Rightarrow> audioChunk c s
      | RecorderError \<Rightarrow> recorderError s)"

definition step :: "int \<times> event \<Rightarrow> engine \<Rightarrow> engine" where
  "step tev s = effects (fst tev) s (handle (fst tev) (snd tev) s)"

fun run :: "engine \<Rightarrow> (int \<times> event) list \<Rightarrow> engine" where
  "run s [] = s"
| "run s (tev # rest) = run (step tev s) rest"

section \<open>Properties of states and traces\<close>

text \<open>The delays of the reconnection policy, and what holds of the client between closures.\<close>

definition backoff :: "nat list" where
  "backoff = [2000, 4000, 8000]"

definition reconnect_inv :: "nat list \<Rightarrow> deepgram_hook \<Rightarrow> bool" where
  "reconnect_inv base d \<longleftrightarrow>
     reconnectAttemptRef d \<le> 3 \<and>
     reconnectDelays d = base @ take (reconnectAttemptRef d) backoff \<and>
     pendingReconnects d = 0 \<and> \<not> intentionalCloseRef d"

text \<open>A recorded pair of speaking flags is fine when at most one of them is set.\<close>

definition flag_ok :: "effect \<Rightarrow> bool" where
  "flag_ok x = (case x of Flags a u \<Rightarrow> \<not> (a \<and> u) | _ \<Rightarrow> True)"

definition flags_inv :: "engine \<Rightarrow> bool" where
  "flags_inv s \<longleftrightarrow> list_all flag_ok (trace s)"

text \<open>
  \<open>armAfter la xs\<close> is the time of the most recent arming of the silence timer
  after the trace \<open>xs\<close>, starting from \<open>la\<close>. \<open>quiescent la xs\<close> says that every
  end-of-turn signal in \<open>xs\<close> comes at least the silence threshold after the most
  recent arming before it.
\<close>

fun armAfter :: "int option \<Rightarrow> effect list \<Rightarrow> int option" where
  "armAfter la [] = la"
| "armAfter la (ArmSilence t # xs) = armAfter (Some t) xs"
| "armAfter la (x # xs) = armAfter la xs"

fun quiescent :: "int option \<Rightarrow> effect list \<Rightarrow> bool" where
  "quiescent la [] = True"
| "quiescent la (ArmSilence t # xs) = quiescent (Some t) xs"
| "quiescent la (EndOfTurn t # xs) =
     ((case la of None \<Rightarrow> False | Some a \<Rightarrow> a + SILENCE_THRESHOLD_MS \<le> t) \<and> quiescent la xs)"
| "quiescent la (x # xs) = quiescent la xs"

definition timer_inv :: "engine \<Rightarrow> bool" where
  "timer_inv s \<longleftrightarrow>
     quiescent None (trace s) \<and>
     (\<forall>tm. silenceTimerRef s = Some tm \<longrightarrow>
        fired tm \<or> armAfter None (trace s) = Some (deadline tm - SILENCE_THRESHOLD_MS))"

text \<open>
  The end routine runs at most once: before it has begun none of its effects has
  occurred and no score request is in flight; once it has begun the score request
  was made once and is either in flight or has set \<open>completed\<close> once.
\<close>

definition counts_inv :: "engine \<Rightarrow> bool" where
  "counts_inv s \<longleftrightarrow>
     count_list (trace s) CallScore = (if isEndingRef s then 1 else 0) \<and>
     count_list (trace s) (SetPhase Completed) + scorePending s
       = (if isEndingRef s then 1 else 0) \<and>
     count_list (trace s) StopPlayback \<le> (if isEndingRef s then 1 else 0) \<and>
     count_list (trace s) CancelSilence \<le> (if isEndingRef s then 1 else 0)"

text \<open>
  Whenever the recorder of the hook is recording, the hook says so and the recorder
  has its \<open>MediaRecorder\<close>.
\<close>

definition rec_ok :: "recorder_hook \<Rightarrow> bool" where
  "rec_ok h \<longleftrightarrow>
     (\<forall>r. recorderRef h = Some r \<longrightarrow> recording r \<longrightarrow>
        isRecording h \<and> mediaRecorder r \<noteq> None)"

text \<open>
  The engine waits for a turn of the interviewer while a start or a chat request
  is in flight. There is at most one such request; while there is one the
  respondent's flag is clear and the phase is not \<open>interviewing\<close>; in phase \<open>idle\<close>
  nothing is in flight and nothing has begun.
\<close>

definition waiting :: "engine \<Rightarrow> bool" where
  "waiting s \<longleftrightarrow> startPending s \<noteq> 0 \<or> chatPending s \<noteq> []"

definition turn_inv :: "engine \<Rightarrow> bool" where
  "turn_inv s \<longleftrightarrow>
     startPending s + length (chatPending s) \<le> 1 \<and>
     (waiting s \<longrightarrow> \<not> isUserSpeaking s \<and> phase s \<noteq> Interviewing \<and> phase s \<noteq> Idle) \<and>
     (phase s = Idle \<longrightarrow> \<not> isUserSpeaking s \<and> \<not> isEndingRef s)"

text \<open>What holds while a handler runs, and what holds between two events.\<close>

definition engine_inv0 :: "engine \<Rightarrow> bool" where
  "engine_inv0 s \<longleftrightarrow>
     \<not> isAISpeaking s \<and> turn_inv s \<and>
     flags_inv s \<and> counts_inv s \<and> timer_inv s \<and> rec_ok (recorder s)"

definition text_inv :: "engine \<Rightarrow> bool" where
  "text_inv s \<longleftrightarrow>
     trim (fullTranscript (deepgram s) @ transcript (deepgram s)) = [] \<or>
     lastTranscriptRef s = fullTranscript (deepgram s) @ transcript (deepgram s)"

definition engine_inv :: "engine \<Rightarrow> bool" where
  "engine_inv s \<longleftrightarrow> engine_inv0 s \<and> phaseRef s = phase s \<and> text_inv s"

text \<open>The phases set and the requests made along a trace.\<close>

fun phases_of :: "effect list \<Rightarrow> phase list" where
  "phases_of [] = []"
| "phases_of (SetPhase p # xs) = p # phases_of xs"
| "phases_of (x # xs) = phases_of xs"

fun chat_calls :: "effect list \<Rightarrow> string list" where
  "chat_calls [] = []"
| "chat_calls (CallChat m # xs) = m # chat_calls xs"
| "chat_calls (x # xs) = chat_calls xs"

fun tts_calls :: "effect list \<Rightarrow> string list" where
  "tts_calls [] = []"
| "tts_calls (CallTts m # xs) = m # tts_calls xs"
| "tts_calls (x # xs) = tts_calls xs"



section \<open>Concrete sessions\<close>

text \<open>An environment in which every call succeeds.\<close>

definition ok_env :: env where
  "ok_env =
     \<lparr>tts = Some [1], decodes = (\<lambda>_. True), sttToken = Inr ''tok'', mic = MicGranted,
      mimeTypes = [''audio/webm''], defaultMime = [], flushed = []\<rparr>"

definition final :: "string \<Rightarrow> event" where
  "final t = Socket (WsMessage (Json ''Results'' (Some [t]) True))"


text \<open>
  The callback of a silence timer armed during recording, holding \<open>seen\<close> as
  \<open>deepgram.fullTranscript\<close>.
\<close>

definition timeout_seeing :: "string \<Rightarrow> event" where
  "timeout_seeing seen =
     SilenceTimeout \<lparr>cl_isRecording = True, cl_fullTranscript = seen,
                     cl_end_isRecording = True\<rparr> ok_env"

text \<open>A turn of the generator that goes on, and the start of the session.\<close>

definition next_turn :: event where
  "next_turn = ChatResponded (Inr (''Next?'', False)) ok_env"

definition started :: "(int \<times> event) list" where
  "started = [(0, StartInterview), (50, StartResponded (Inr ''Hello'') ok_env),
              (100, Socket WsOpen)]"

text \<open>The session starts, the socket opens and the respondent says \<open>A\<close>.\<close>

definition listening :: "(int \<times> event) list" where
  "listening = started @ [(1000, final ''A'')]"

text \<open>The silence timer fires and the chat request for \<open>A\<close> is in flight.\<close>

definition thinking :: "(int \<times> event) list" where
  "thinking = listening @ [(3000, timeout_seeing ''A'')]"

text \<open>
  Two respondent turns: \<open>A\<close> is finalized in the first listening window, \<open>B\<close> in the
  second; \<open>seen\<close> is the \<open>fullTranscript\<close> the second callback holds.
\<close>

definition two_turns :: "string \<Rightarrow> (int \<times> event) list" where
  "two_turns seen =
     thinking @
     [(3050, next_turn), (3100, Socket WsOpen), (4000, final ''B''),
      (6000, timeout_seeing seen), (6050, next_turn)]"


text \<open>
  The page asks to stop while the chat request is in flight; the score request
  is answered first, then the chat request fails, or succeeds.
\<close>

definition stop_then_chat_fails :: "(int \<times> event) list" where
  "stop_then_chat_fails =
     thinking @ [(3500, EndInterview ok_env), (4000, ScoreResponded True),
                 (4500, ChatResponded (Inl AiResponseFailed) ok_env)]"

definition stop_then_chat_answers :: "(int \<times> event) list" where
  "stop_then_chat_answers =
     thinking @ [(3500, EndInterview ok_env), (4000, ScoreResponded True), (4500, next_turn)]"





section \<open>Results: token route\<close>

text \<open>
  C9. When creating the temporary key throws, the route still answers 200 and the
  token it returns is the permanent server-side API key itself.
\<close>

theorem C9_token_fallback_is_api_key:
  assumes "k \<noteq> []"
  shows "GET (Some k) KeyThrows = \<lparr>status = 200, body = TokenBody k listen_url\<rparr>"
  using assms by (simp add: GET_def)

theorem C9_token_fallback_is_api_key_witness:
  "''dg_secret'' \<noteq> [] \<and>
   GET (Some ''dg_secret'') KeyThrows =
     \<lparr>status = 200, body = TokenBody ''dg_secret'' listen_url\<rparr>"
  using C9_token_fallback_is_api_key [of "''dg_secret''"] by simp

section \<open>Results: capture pipeline\<close>

lemma recorder_stop_not_recording:
  "\<not> recording r \<Longrightarrow> recorder_stop flush r = Inl NotRecording"
  by (simp add: recorder_stop_def split: option.splits)

lemma recorder_stop_clears_recording:
  "recorder_stop flush r = Inr (b, r') \<Longrightarrow> \<not> recording r'"
  by (auto simp: recorder_stop_def Let_def ondataavailable_def split: option.splits if_splits)

lemma stopRecording_idle:
  "recorderRef h = None \<or> (\<exists>r. recorderRef h = Some r \<and> \<not> recording r) \<Longrightarrow>
   stopRecording flush h = (None, h)"
  by (auto simp: stopRecording_def recorder_isRecording_def)

lemma stopRecording_twice:
  "stopRecording f2 (snd (stopRecording f1 h)) = (None, snd (stopRecording f1 h))"
proof (cases "recorderRef h")
  case None
  then show ?thesis by (simp add: stopRecording_def)
next
  case (Some r)
  show ?thesis
  proof (cases "recording r")
    case False
    with Some show ?thesis by (simp add: stopRecording_def recorder_isRecording_def)
  next
    case True
    show ?thesis
    proof (cases "recorder_stop f1 r")
      case (Inl m)
      then have m: "m = NotRecording" and mr: "mediaRecorder r = None"
        using True by (auto simp: recorder_stop_def Let_def split: option.splits)
      have again: "recorder_stop f2 r = Inl NotRecording"
        using mr by (simp add: recorder_stop_def)
      show ?thesis
        using Some True Inl m again
        by (simp add: stopRecording_def recorder_isRecording_def)
    next
      case (Inr p)
      obtain b r' where p: "p = (b, r')" by (cases p)
      have "\<not> recording r'" using Inr p recorder_stop_clears_recording by blast
      then show ?thesis
        using Some True Inr p
        by (simp add: stopRecording_def recorder_isRecording_def)
    qed
  qed
qed

text \<open>
  C7, as stated, at the class: \<open>stop()\<close> on a recorder that was never started does
  not complete quietly, its promise rejects.
\<close>

theorem C7_stop_rejects_counterexample:
  "recorder_stop [] new_AudioRecorder = Inl NotRecording"
  by (simp add: recorder_stop_def new_AudioRecorder_def)

text \<open>
  C7, amended. \<open>AudioRecorder.stop()\<close> rejects with the not-recording error whenever
  the recorder is not recording, in particular when it is called again after a stop
  that completed. The hook's \<open>stopRecording\<close> guards the call: with no recorder, or
  with one that is not recording, it returns null and changes nothing, and a second
  \<open>stopRecording\<close> in a row always returns null and changes nothing.
\<close>

theorem C7_stop_idempotent_at_hook:
  "(\<not> recording ra \<longrightarrow> recorder_stop ca ra = Inl NotRecording) \<and>
   (recorder_stop cb rb = Inr (b, rc) \<longrightarrow> recorder_stop cc rc = Inl NotRecording) \<and>
   (recorderRef ha = None \<or> (\<exists>q. recorderRef ha = Some q \<and> \<not> recording q) \<longrightarrow>
      stopRecording cd ha = (None, ha)) \<and>
   stopRecording cf (snd (stopRecording ce h)) = (None, snd (stopRecording ce h))"
  using recorder_stop_not_recording recorder_stop_clears_recording
    stopRecording_idle stopRecording_twice
  by blast

text \<open>A recorder that has been started and holds no data yet.\<close>

theorem C7_stop_idempotent_at_hook_witness:
  "\<not> recording new_AudioRecorder \<and>
   recorder_stop [] new_AudioRecorder = Inl NotRecording \<and>
   recorder_stop [7] (new_AudioRecorder\<lparr>mediaRecorder := Some ''audio/webm'', recording := True\<rparr>)
     = Inr (\<lparr>parts = [[7]], mime = ''audio/webm''\<rparr>,
            new_AudioRecorder\<lparr>mediaRecorder := Some ''audio/webm''\<rparr>) \<and>
   recorder_stop [] (new_AudioRecorder\<lparr>mediaRecorder := Some ''audio/webm''\<rparr>)
     = Inl NotRecording \<and>
   recorderRef useAudioRecorder = None \<and>
   stopRecording [] useAudioRecorder = (None, useAudioRecorder)"
proof -
  have s1: "recorder_stop [7]
      (new_AudioRecorder\<lparr>mediaRecorder := Some ''audio/webm'', recording := True\<rparr>)
     = Inr (\<lparr>parts = [[7]], mime = ''audio/webm''\<rparr>,
            new_AudioRecorder\<lparr>mediaRecorder := Some ''audio/webm''\<rparr>)"
    by (simp add: recorder_stop_def new_AudioRecorder_def ondataavailable_def)
  have n: "\<not> recording new_AudioRecorder" "recorderRef useAudioRecorder = None"
    by (simp_all add: new_AudioRecorder_def useAudioRecorder_def)
  show ?thesis
    using C7_stop_idempotent_at_hook
      [where ra = new_AudioRecorder and ca = "[]"
         and rb = "new_AudioRecorder\<lparr>mediaRecorder := Some ''audio/webm'', recording := True\<rparr>"
         and cb = "[7]" and b = "\<lparr>parts = [[7]], mime = ''audio/webm''\<rparr>"
         and rc = "new_AudioRecorder\<lparr>mediaRecorder := Some ''audio/webm''\<rparr>" and cc = "[]"
         and ha = useAudioRecorder and cd = "[]"]
      s1 n
    by simp
qed


section \<open>Results: reconnection\<close>



lemma onerror_reconnect_inv [simp]: "reconnect_inv base (ws_onerror d) = reconnect_inv base d"
  by (simp add: reconnect_inv_def ws_onerror_def)





section \<open>What each operation of the engine changes\<close>

lemma emit_simps [simp]:
  "trace (emit x s) = trace s @ [x]"
  "phase (emit x s) = phase s"
  "phaseRef (emit x s) = phaseRef s"
  "isEndingRef (emit x s) = isEndingRef s"
  "timerRef (emit x s) = timerRef s"
  "isAISpeaking (emit x s) = isAISpeaking s"
  "isUserSpeaking (emit x s) = isUserSpeaking s"
  "silenceTimerRef (emit x s) = silenceTimerRef s"
  "recorder (emit x s) = recorder s"
  "deepgram (emit x s) = deepgram s"
  "playerRef (emit x s) = playerRef s"
  "messages (emit x s) = messages s"
  "error (emit x s) = error s"
  "lastTranscriptRef (emit x s) = lastTranscriptRef s"
  "startTimeRef (emit x s) = startTimeRef s"
  "startPending (emit x s) = startPending s"
  "chatPending (emit x s) = chatPending s"
  "scorePending (emit x s) = scorePending s"
  by (simp_all add: emit_def)

lemma setPhase_simps [simp]:
  "trace (setPhase p s) = trace s @ [SetPhase p]"
  "phase (setPhase p s) = p"
  "phaseRef (setPhase p s) = phaseRef s"
  "isEndingRef (setPhase p s) = isEndingRef s"
  "timerRef (setPhase p s) = timerRef s"
  "isAISpeaking (setPhase p s) = isAISpeaking s"
  "isUserSpeaking (setPhase p s) = isUserSpeaking s"
  "silenceTimerRef (setPhase p s) = silenceTimerRef s"
  "recorder (setPhase p s) = recorder s"
  "deepgram (setPhase p s) = deepgram s"
  "playerRef (setPhase p s) = playerRef s"
  "messages (setPhase p s) = messages s"
  "error (setPhase p s) = error s"
  "lastTranscriptRef (setPhase p s) = lastTranscriptRef s"
  "startTimeRef (setPhase p s) = startTimeRef s"
  "startPending (setPhase p s) = startPending s"
  "chatPending (setPhase p s) = chatPending s"
  "scorePending (setPhase p s) = scorePending s"
  by (simp_all add: setPhase_def emit_def)

lemma setIsAISpeaking_simps [simp]:
  "trace (setIsAISpeaking b s) = trace s @ [Flags b (isUserSpeaking s)]"
  "phase (setIsAISpeaking b s) = phase s"
  "phaseRef (setIsAISpeaking b s) = phaseRef s"
  "isEndingRef (setIsAISpeaking b s) = isEndingRef s"
  "timerRef (setIsAISpeaking b s) = timerRef s"
  "isAISpeaking (setIsAISpeaking b s) = b"
  "isUserSpeaking (setIsAISpeaking b s) = isUserSpeaking s"
  "silenceTimerRef (setIsAISpeaking b s) = silenceTimerRef s"
  "recorder (setIsAISpeaking b s) = recorder s"
  "deepgram (setIsAISpeaking b s) = deepgram s"
  "playerRef (setIsAISpeaking b s) = playerRef s"
  "messages (setIsAISpeaking b s) = messages s"
  "error (setIsAISpeaking b s) = error s"
  "lastTranscriptRef (setIsAISpeaking b s) = lastTranscriptRef s"
  "startTimeRef (setIsAISpeaking b s) = startTimeRef s"
  "startPending (setIsAISpeaking b s) = startPending s"
  "chatPending (setIsAISpeaking b s) = chatPending s"
  "scorePending (setIsAISpeaking b s) = scorePending s"
  by (simp_all add: setIsAISpeaking_def emit_def)

lemma setIsUserSpeaking_simps [simp]:
  "trace (setIsUserSpeaking b s) = trace s @ [Flags (isAISpeaking s) b]"
  "phase (setIsUserSpeaking b s) = phase s"
  "phaseRef (setIsUserSpeaking b s) = phaseRef s"
  "isEndingRef (setIsUserSpeaking b s) = isEndingRef s"
  "timerRef (setIsUserSpeaking b s) = timerRef s"
  "isAISpeaking (setIsUserSpeaking b s) = isAISpeaking s"
  "isUserSpeaking (setIsUserSpeaking b s) = b"
  "silenceTimerRef (setIsUserSpeaking b s) = silenceTimerRef s"
  "recorder (setIsUserSpeaking b s) = recorder s"
  "deepgram (setIsUserSpeaking b s) = deepgram s"
  "playerRef (setIsUserSpeaking b s) = playerRef s"
  "messages (setIsUserSpeaking b s) = messages s"
  "error (setIsUserSpeaking b s) = error s"
  "lastTranscriptRef (setIsUserSpeaking b s) = lastTranscriptRef s"
  "startTimeRef (setIsUserSpeaking b s) = startTimeRef s"
  "startPending (setIsUserSpeaking b s) = startPending s"
  "chatPending (setIsUserSpeaking b s) = chatPending s"
  "scorePending (setIsUserSpeaking b s) = scorePending s"
  by (simp_all add: setIsUserSpeaking_def emit_def)

lemma rerender_simps [simp]:
  "trace (rerender s) = trace s"
  "phase (rerender s) = phase s"
  "phaseRef (rerender s) = phase s"
  "isEndingRef (rerender s) = isEndingRef s"
  "timerRef (rerender s) = timerRef s"
  "isAISpeaking (rerender s) = isAISpeaking s"
  "isUserSpeaking (rerender s) = isUserSpeaking s"
  "silenceTimerRef (rerender s) = silenceTimerRef s"
  "recorder (rerender s) = recorder s"
  "deepgram (rerender s) = deepgram s"
  "playerRef (rerender s) = playerRef s"
  "messages (rerender s) = messages s"
  "error (rerender s) = error s"
  "lastTranscriptRef (rerender s) = lastTranscriptRef s"
  "startTimeRef (rerender s) = startTimeRef s"
  "startPending (rerender s) = startPending s"
  "chatPending (rerender s) = chatPending s"
  "scorePending (rerender s) = scorePending s"
  by (simp_all add: rerender_def)

lemma startTimer_simps [simp]:
  "trace (startTimer now s) = trace s"
  "phase (startTimer now s) = phase s"
  "phaseRef (startTimer now s) = phaseRef s"
  "isEndingRef (startTimer now s) = isEndingRef s"
  "timerRef (startTimer now s) = True"
  "isAISpeaking (startTimer now s) = isAISpeaking s"
  "isUserSpeaking (startTimer now s) = isUserSpeaking s"
  "silenceTimerRef (startTimer now s) = silenceTimerRef s"
  "recorder (startTimer now s) = recorder s"
  "deepgram (startTimer now s) = deepgram s"
  "playerRef (startTimer now s) = playerRef s"
  "messages (startTimer now s) = messages s"
  "error (startTimer now s) = error s"
  "lastTranscriptRef (startTimer now s) = lastTranscriptRef s"
  "startTimeRef (startTimer now s) = now"
  "startPending (startTimer now s) = startPending s"
  "chatPending (startTimer now s) = chatPending s"
  "scorePending (startTimer now s) = scorePending s"
  by (simp_all add: startTimer_def)

lemma stopTimer_simps [simp]:
  "trace (stopTimer s) = trace s"
  "phase (stopTimer s) = phase s"
  "phaseRef (stopTimer s) = phaseRef s"
  "isEndingRef (stopTimer s) = isEndingRef s"
  "timerRef (stopTimer s) = False"
  "isAISpeaking (stopTimer s) = isAISpeaking s"
  "isUserSpeaking (stopTimer s) = isUserSpeaking s"
  "silenceTimerRef (stopTimer s) = silenceTimerRef s"
  "recorder (stopTimer s) = recorder s"
  "deepgram (stopTimer s) = deepgram s"
  "playerRef (stopTimer s) = playerRef s"
  "messages (stopTimer s) = messages s"
  "error (stopTimer s) = error s"
  "lastTranscriptRef (stopTimer s) = lastTranscriptRef s"
  "startTimeRef (stopTimer s) = startTimeRef s"
  "startPending (stopTimer s) = startPending s"
  "chatPending (stopTimer s) = chatPending s"
  "scorePending (stopTimer s) = scorePending s"
  by (simp_all add: stopTimer_def)

lemma resetSilenceTimer_simps [simp]:
  "trace (resetSilenceTimer now s) = trace s @ [ArmSilence now]"
  "phase (resetSilenceTimer now s) = phase s"
  "phaseRef (resetSilenceTimer now s) = phaseRef s"
  "isEndingRef (resetSilenceTimer now s) = isEndingRef s"
  "timerRef (resetSilenceTimer now s) = timerRef s"
  "isAISpeaking (resetSilenceTimer now s) = isAISpeaking s"
  "isUserSpeaking (resetSilenceTimer now s) = isUserSpeaking s"
  "silenceTimerRef (resetSilenceTimer now s) = Some \<lparr>deadline = now + SILENCE_THRESHOLD_MS, fired = False\<rparr>"
  "recorder (resetSilenceTimer now s) = recorder s"
  "deepgram (resetSilenceTimer now s) = deepgram s"
  "playerRef (resetSilenceTimer now s) = playerRef s"
  "messages (resetSilenceTimer now s) = messages s"
  "error (resetSilenceTimer now s) = error s"
  "lastTranscriptRef (resetSilenceTimer now s) = lastTranscriptRef s"
  "startTimeRef (resetSilenceTimer now s) = startTimeRef s"
  "startPending (resetSilenceTimer now s) = startPending s"
  "chatPending (resetSilenceTimer now s) = chatPending s"
  "scorePending (resetSilenceTimer now s) = scorePending s"
  by (simp_all add: resetSilenceTimer_def)

lemma speakText_simps [simp]:
  "trace (speakText t e s) = trace s @ [Flags True (isUserSpeaking s), CallTts t, Flags False (isUserSpeaking s)]"
  "phase (speakText t e s) = phase s"
  "phaseRef (speakText t e s) = phase s"
  "isEndingRef (speakText t e s) = isEndingRef s"
  "timerRef (speakText t e s) = timerRef s"
  "isAISpeaking (speakText t e s) = False"
  "isUserSpeaking (speakText t e s) = isUserSpeaking s"
  "silenceTimerRef (speakText t e s) = silenceTimerRef s"
  "recorder (speakText t e s) = recorder s"
  "deepgram (speakText t e s) = deepgram s"
  "messages (speakText t e s) = messages s"
  "error (speakText t e s) = error s"
  "lastTranscriptRef (speakText t e s) = lastTranscriptRef s"
  "startTimeRef (speakText t e s) = startTimeRef s"
  "startPending (speakText t e s) = startPending s"
  "chatPending (speakText t e s) = chatPending s"
  "scorePending (speakText t e s) = scorePending s"
  by (simp_all add: speakText_def Let_def split: option.splits)

lemma startListening_simps [simp]:
  "trace (startListening now e s) = (if phaseRef s \<noteq> Interviewing then trace s else trace s @ [Flags (isAISpeaking s) True, ArmSilence now])"
  "phase (startListening now e s) = phase s"
  "phaseRef (startListening now e s) = (if phaseRef s \<noteq> Interviewing then phaseRef s else phase s)"
  "isEndingRef (startListening now e s) = isEndingRef s"
  "timerRef (startListening now e s) = timerRef s"
  "isAISpeaking (startListening now e s) = isAISpeaking s"
  "isUserSpeaking (startListening now e s) = (if phaseRef s \<noteq> Interviewing then isUserSpeaking s else True)"
  "silenceTimerRef (startListening now e s) = (if phaseRef s \<noteq> Interviewing then silenceTimerRef s else Some \<lparr>deadline = now + SILENCE_THRESHOLD_MS, fired = False\<rparr>)"
  "recorder (startListening now e s) = (if phaseRef s \<noteq> Interviewing then recorder s else startRecording (mic e) (mimeTypes e) (defaultMime e) (onChunkAvailable (recorder s)))"
  "deepgram (startListening now e s) = (if phaseRef s \<noteq> Interviewing then deepgram s else connect (sttToken e) (deepgram s))"
  "playerRef (startListening now e s) = playerRef s"
  "messages (startListening now e s) = messages s"
  "error (startListening now e s) = error s"
  "lastTranscriptRef (startListening now e s) = lastTranscriptRef s"
  "startTimeRef (startListening now e s) = startTimeRef s"
  "startPending (startListening now e s) = startPending s"
  "chatPending (startListening now e s) = chatPending s"
  "scorePending (startListening now e s) = scorePending s"
  by (simp_all add: startListening_def Let_def)

lemma endInterviewInternal_trace:
  "trace (endInterviewInternal rec e s) =
     (if isEndingRef s then trace s
      else trace s @ [SetPhase Processing] @ (if rec then [StopCapture] else []) @ [Disconnect]
           @ (if playerRef s \<noteq> None then [StopPlayback] else [])
           @ (if silenceTimerRef s \<noteq> None then [CancelSilence] else [])
           @ [Flags False (isUserSpeaking s), Flags False False, CallScore])"
  by (auto simp: endInterviewInternal_def Let_def split: option.splits)

lemma endInterviewInternal_simps [simp]:
  "phase (endInterviewInternal rec e s) = (if isEndingRef s then phase s else Processing)"
  "phaseRef (endInterviewInternal rec e s) = (if isEndingRef s then phaseRef s else Processing)"
  "isEndingRef (endInterviewInternal rec e s) = True"
  "timerRef (endInterviewInternal rec e s) = (if isEndingRef s then timerRef s else False)"
  "isAISpeaking (endInterviewInternal rec e s) = (if isEndingRef s then isAISpeaking s else False)"
  "isUserSpeaking (endInterviewInternal rec e s) = (if isEndingRef s then isUserSpeaking s else False)"
  "silenceTimerRef (endInterviewInternal rec e s) = (if isEndingRef s then silenceTimerRef s else None)"
  "recorder (endInterviewInternal rec e s) = (if isEndingRef s \<or> \<not> rec then recorder s else snd (stopRecording (flushed e) (recorder s)))"
  "deepgram (endInterviewInternal rec e s) = (if isEndingRef s then deepgram s else disconnect (deepgram s))"
  "playerRef (endInterviewInternal rec e s) = (if isEndingRef s then playerRef s else map_option (\<lambda>p. player_stop_timeout (player_stop p)) (playerRef s))"
  "messages (endInterviewInternal rec e s) = messages s"
  "error (endInterviewInternal rec e s) = error s"
  "lastTranscriptRef (endInterviewInternal rec e s) = lastTranscriptRef s"
  "startTimeRef (endInterviewInternal rec e s) = startTimeRef s"
  "startPending (endInterviewInternal rec e s) = startPending s"
  "chatPending (endInterviewInternal rec e s) = chatPending s"
  "scorePending (endInterviewInternal rec e s) = (if isEndingRef s then scorePending s else scorePending s + 1)"
  by (simp_all add: endInterviewInternal_def Let_def split: option.splits)

lemma getAIResponse_simps [simp]:
  "trace (getAIResponse u cl s) = (if phaseRef s \<noteq> Interviewing then trace s else trace s @ [SetPhase Processing, CallChat u])"
  "phase (getAIResponse u cl s) = (if phaseRef s \<noteq> Interviewing then phase s else Processing)"
  "phaseRef (getAIResponse u cl s) = (if phaseRef s \<noteq> Interviewing then phaseRef s else Processing)"
  "isEndingRef (getAIResponse u cl s) = isEndingRef s"
  "timerRef (getAIResponse u cl s) = timerRef s"
  "isAISpeaking (getAIResponse u cl s) = isAISpeaking s"
  "isUserSpeaking (getAIResponse u cl s) = isUserSpeaking s"
  "silenceTimerRef (getAIResponse u cl s) = silenceTimerRef s"
  "recorder (getAIResponse u cl s) = recorder s"
  "deepgram (getAIResponse u cl s) = deepgram s"
  "playerRef (getAIResponse u cl s) = playerRef s"
  "messages (getAIResponse u cl s) = messages s"
  "error (getAIResponse u cl s) = error s"
  "lastTranscriptRef (getAIResponse u cl s) = lastTranscriptRef s"
  "startTimeRef (getAIResponse u cl s) = startTimeRef s"
  "startPending (getAIResponse u cl s) = startPending s"
  "chatPending (getAIResponse u cl s) = (if phaseRef s \<noteq> Interviewing then chatPending s else chatPending s @ [(u, cl)])"
  "scorePending (getAIResponse u cl s) = scorePending s"
  by (simp_all add: getAIResponse_def Let_def)

lemma endInterviewInternal_resumed_simps [simp]:
  "trace (endInterviewInternal_resumed ok s) = trace s @ [SetPhase Completed]"
  "phase (endInterviewInternal_resumed ok s) = Completed"
  "phaseRef (endInterviewInternal_resumed ok s) = phaseRef s"
  "isEndingRef (endInterviewInternal_resumed ok s) = isEndingRef s"
  "timerRef (endInterviewInternal_resumed ok s) = timerRef s"
  "isAISpeaking (endInterviewInternal_resumed ok s) = isAISpeaking s"
  "isUserSpeaking (endInterviewInternal_resumed ok s) = isUserSpeaking s"
  "silenceTimerRef (endInterviewInternal_resumed ok s) = silenceTimerRef s"
  "recorder (endInterviewInternal_resumed ok s) = recorder s"
  "deepgram (endInterviewInternal_resumed ok s) = deepgram s"
  "playerRef (endInterviewInternal_resumed ok s) = playerRef s"
  "messages (endInterviewInternal_resumed ok s) = messages s"
  "error (endInterviewInternal_resumed ok s) = error s"
  "lastTranscriptRef (endInterviewInternal_resumed ok s) = lastTranscriptRef s"
  "startTimeRef (endInterviewInternal_resumed ok s) = startTimeRef s"
  "startPending (endInterviewInternal_resumed ok s) = startPending s"
  "chatPending (endInterviewInternal_resumed ok s) = chatPending s"
  "scorePending (endInterviewInternal_resumed ok s) = scorePending s"
  by (simp_all add: endInterviewInternal_resumed_def)

section \<open>Traces\<close>

lemma armAfter_append [simp]: "armAfter la (xs @ ys) = armAfter (armAfter la xs) ys"
  by (induction la xs rule: armAfter.induct) simp_all

lemma quiescent_append [simp]:
  "quiescent la (xs @ ys) = (quiescent la xs \<and> quiescent (armAfter la xs) ys)"
  by (induction la xs rule: quiescent.induct) simp_all

lemma phases_of_append [simp]: "phases_of (xs @ ys) = phases_of xs @ phases_of ys"
  by (induction xs rule: phases_of.induct) simp_all

lemma chat_calls_append [simp]: "chat_calls (xs @ ys) = chat_calls xs @ chat_calls ys"
  by (induction xs rule: chat_calls.induct) simp_all

lemma tts_calls_append [simp]: "tts_calls (xs @ ys) = tts_calls xs @ tts_calls ys"
  by (induction xs rule: tts_calls.induct) simp_all

section \<open>The sub-hooks\<close>

lemma connect_texts [simp]:
  "transcript (connect tok d) = transcript d" "fullTranscript (connect tok d) = fullTranscript d"
  "fullTranscriptRef (connect tok d) = fullTranscriptRef d"
  by (simp_all add: connect_def Let_def split: option.splits sum.splits)

lemma disconnect_simps [simp]:
  "transcript (disconnect d) = transcript d" "fullTranscript (disconnect d) = fullTranscript d"
  "fullTranscriptRef (disconnect d) = fullTranscriptRef d"
  "wsRef (disconnect d) = None" "\<not> isConnected (disconnect d)"
  "intentionalCloseRef (disconnect d)"
  by (simp_all add: disconnect_def Let_def split: option.splits)

lemma reconnect_timeout_texts [simp]:
  "transcript (reconnect_timeout tok d) = transcript d"
  "fullTranscript (reconnect_timeout tok d) = fullTranscript d"
  "fullTranscriptRef (reconnect_timeout tok d) = fullTranscriptRef d"
  by (simp_all add: reconnect_timeout_def)

lemma sendAudio_texts [simp]:
  "transcript (sendAudio c d) = transcript d" "fullTranscript (sendAudio c d) = fullTranscript d"
  "fullTranscriptRef (sendAudio c d) = fullTranscriptRef d"
  by (simp_all add: sendAudio_def)

lemma rec_ok_startRecording [simp]: "rec_ok (startRecording m ms dm h)"
  by (auto simp: rec_ok_def startRecording_def recorder_start_def recorder_destroy_def
        new_AudioRecorder_def onDataAvailable_def Let_def
        split: option.splits sum.splits mic_outcome.splits if_splits)

lemma rec_ok_stopRecording: "rec_ok h \<Longrightarrow> rec_ok (snd (stopRecording f h))"
  by (auto simp: rec_ok_def stopRecording_def recorder_stop_def recorder_isRecording_def
        ondataavailable_def Let_def split: option.splits sum.splits if_splits)

lemma stopRecording_stops:
  "rec_ok h \<Longrightarrow> recorderRef (snd (stopRecording f h)) = Some r \<Longrightarrow> \<not> recording r"
  by (auto simp: rec_ok_def stopRecording_def recorder_stop_def recorder_isRecording_def
        ondataavailable_def Let_def split: option.splits sum.splits if_splits)




section \<open>The invariant\<close>

lemma engine_inv_init: "engine_inv useInterviewEngine"
  by (simp add: engine_inv_def engine_inv0_def timer_inv_def flags_inv_def counts_inv_def
        turn_inv_def waiting_def text_inv_def rec_ok_def useInterviewEngine_def
        useAudioRecorder_def useDeepgram_def trim_def)

lemma startInterview_inv0: "engine_inv s \<Longrightarrow> engine_inv0 (startInterview s)"
  by (auto simp: engine_inv_def engine_inv0_def timer_inv_def flags_inv_def counts_inv_def
        turn_inv_def waiting_def flag_ok_def startInterview_def Let_def)

lemma startInterview_resumed_inv0:
  assumes "engine_inv s" "startPending s \<noteq> 0"
  shows "engine_inv0 (startInterview_resumed outcome now e (s\<lparr>startPending := startPending s - 1\<rparr>))"
proof -
  have le: "startPending s + length (chatPending s) \<le> 1"
    using assms(1) by (simp add: engine_inv_def engine_inv0_def turn_inv_def)
  then have "length (chatPending s) = 0" "startPending s = 1"
    using assms(2) by linarith+
  then have one: "chatPending s = []" "startPending s = 1"
    by simp_all
  show ?thesis
  using assms one
  by (auto simp: engine_inv_def engine_inv0_def timer_inv_def flags_inv_def counts_inv_def
        turn_inv_def waiting_def flag_ok_def startInterview_resumed_def Let_def
        SILENCE_THRESHOLD_MS_def split: sum.splits)
qed

lemma endInterviewInternal_inv0:
  "engine_inv0 s \<Longrightarrow> engine_inv0 (endInterviewInternal rec e s)"
  by (auto simp: engine_inv0_def timer_inv_def flags_inv_def counts_inv_def
        turn_inv_def waiting_def flag_ok_def endInterviewInternal_trace rec_ok_stopRecording)

lemma endInterviewInternal_resumed_inv0:
  assumes "engine_inv s" "scorePending s \<noteq> 0"
  shows "engine_inv0 (endInterviewInternal_resumed ok (s\<lparr>scorePending := scorePending s - 1\<rparr>))"
  using assms
  by (auto simp: engine_inv_def engine_inv0_def timer_inv_def flags_inv_def counts_inv_def
        turn_inv_def waiting_def flag_ok_def split: if_splits)

lemma timerTick_inv0: "engine_inv s \<Longrightarrow> engine_inv0 (timerTick now e s)"
proof -
  assume i: "engine_inv s"
  have "engine_inv0 (s\<lparr>elapsedTime := x\<rparr>)" for x
    using i by (simp add: engine_inv_def engine_inv0_def timer_inv_def flags_inv_def
                  counts_inv_def turn_inv_def waiting_def)
  then show ?thesis
    by (auto simp: timerTick_def Let_def endInterviewInternal_inv0)
qed

lemma getAIResponse_resumed_inv0:
  assumes "engine_inv s" "chatPending s = (u, cl) # rest"
  shows "engine_inv0 (getAIResponse_resumed cl outcome now e (s\<lparr>chatPending := rest\<rparr>))"
proof -
  have le: "startPending s + length (chatPending s) \<le> 1"
    using assms(1) by (simp add: engine_inv_def engine_inv0_def turn_inv_def)
  then have "length rest = 0" "startPending s = 0"
    using assms(2) by simp_all
  then have one: "rest = []" "startPending s = 0"
    by simp_all
  show ?thesis
  using assms one
  by (auto simp: engine_inv_def engine_inv0_def timer_inv_def flags_inv_def counts_inv_def
        turn_inv_def waiting_def flag_ok_def getAIResponse_resumed_def Let_def
        endInterviewInternal_trace rec_ok_stopRecording
        SILENCE_THRESHOLD_MS_def split: sum.splits prod.splits)
qed

lemma handleUserFinishedSpeaking_inv0:
  assumes "engine_inv0 s" "phaseRef s = Interviewing" "phase s = Interviewing"
    and "silenceTimerRef s = Some tm" "fired tm"
  shows "engine_inv0 (handleUserFinishedSpeaking cl now e s)"
  using assms
  by (auto simp: engine_inv0_def timer_inv_def flags_inv_def counts_inv_def
        turn_inv_def waiting_def flag_ok_def handleUserFinishedSpeaking_def Let_def
        rec_ok_stopRecording SILENCE_THRESHOLD_MS_def)

lemma silenceTimeout_inv0:
  assumes "engine_inv s" "silenceTimerRef s = Some tm" "\<not> fired tm" "deadline tm \<le> now"
  shows "engine_inv0
           (silenceTimeout cl now e (s\<lparr>silenceTimerRef := Some (tm\<lparr>fired := True\<rparr>)\<rparr>))"
proof (cases "phaseRef s = Interviewing \<and> cl_isRecording cl")
  case False
  then show ?thesis
    using assms
    by (auto simp: silenceTimeout_def engine_inv_def engine_inv0_def timer_inv_def
          flags_inv_def counts_inv_def turn_inv_def waiting_def)
next
  case True
  let ?s1 = "emit (EndOfTurn now) (s\<lparr>silenceTimerRef := Some (tm\<lparr>fired := True\<rparr>)\<rparr>)"
  have r: "silenceTimeout cl now e (s\<lparr>silenceTimerRef := Some (tm\<lparr>fired := True\<rparr>)\<rparr>)
             = handleUserFinishedSpeaking cl now e ?s1"
    using True by (simp add: silenceTimeout_def)
  have i1: "engine_inv0 ?s1"
    using assms
    by (auto simp: engine_inv_def engine_inv0_def timer_inv_def flags_inv_def counts_inv_def
          turn_inv_def waiting_def flag_ok_def SILENCE_THRESHOLD_MS_def)
  have ph: "phaseRef ?s1 = Interviewing" "phase ?s1 = Interviewing"
    using assms(1) True by (simp_all add: engine_inv_def)
  have st: "silenceTimerRef ?s1 = Some (tm\<lparr>fired := True\<rparr>)" "fired (tm\<lparr>fired := True\<rparr>)"
    by simp_all
  show ?thesis
    unfolding r by (rule handleUserFinishedSpeaking_inv0 [OF i1 ph st])
qed

lemma passive_inv0:
  "engine_inv s \<Longrightarrow> engine_inv0 (s\<lparr>deepgram := d\<rparr>)"
  "engine_inv s \<Longrightarrow> engine_inv0 (audioChunk c s)"
  "engine_inv s \<Longrightarrow> engine_inv0 (recorderError s)"
  by (auto simp: engine_inv_def engine_inv0_def timer_inv_def flags_inv_def counts_inv_def
        turn_inv_def waiting_def rec_ok_def audioChunk_def recorderError_def
        ondataavailable_def Let_def split: option.splits)

lemma handle_inv0: "engine_inv s \<Longrightarrow> engine_inv0 (handle now ev s)"
proof (cases ev)
  case (SilenceTimeout cl e)
  assume i: "engine_inv s"
  show ?thesis
  proof (cases "silenceTimerRef s")
    case None
    with i SilenceTimeout show ?thesis by (simp add: handle_def engine_inv_def)
  next
    case (Some tm)
    show ?thesis
    proof (cases "fired tm \<or> now < deadline tm")
      case True
      with i SilenceTimeout Some show ?thesis by (auto simp: handle_def engine_inv_def)
    next
      case False
      with i SilenceTimeout Some silenceTimeout_inv0 [of s tm now cl e] show ?thesis
        by (simp add: handle_def)
    qed
  qed
next
  case StartInterview
  assume "engine_inv s"
  then show ?thesis using StartInterview by (simp add: handle_def startInterview_inv0)
next
  case (StartResponded outcome e)
  assume "engine_inv s"
  then show ?thesis
    using StartResponded startInterview_resumed_inv0 [of s _ now]
    by (auto simp: handle_def engine_inv_def)
next
  case (EndInterview e)
  assume "engine_inv s"
  then show ?thesis
    using EndInterview
    by (simp add: handle_def endInterview_def endInterviewInternal_inv0 engine_inv_def)
next
  case (ScoreResponded ok)
  assume "engine_inv s"
  then show ?thesis
    using ScoreResponded endInterviewInternal_resumed_inv0 [of s]
    by (auto simp: handle_def engine_inv_def)
next
  case (TimerTick e)
  assume "engine_inv s"
  then show ?thesis
    using TimerTick by (simp add: handle_def timerTick_inv0 engine_inv_def)
next
  case (ChatResponded outcome e)
  assume i: "engine_inv s"
  show ?thesis
  proof (cases "chatPending s")
    case Nil
    with i ChatResponded show ?thesis by (simp add: handle_def engine_inv_def)
  next
    case (Cons p rest)
    obtain u cl where p: "p = (u, cl)" by (cases p)
    from getAIResponse_resumed_inv0 [OF i Cons [unfolded p]] ChatResponded Cons p
    show ?thesis by (simp add: handle_def)
  qed
next
  case (Socket sev)
  assume "engine_inv s"
  then show ?thesis using Socket by (simp add: handle_def passive_inv0)
next
  case (ReconnectTimeout tok)
  assume "engine_inv s"
  then show ?thesis using ReconnectTimeout by (simp add: handle_def passive_inv0)
next
  case (AudioChunk c)
  assume "engine_inv s"
  then show ?thesis using AudioChunk by (simp add: handle_def passive_inv0)
next
  case RecorderError
  assume "engine_inv s"
  then show ?thesis using RecorderError by (simp add: handle_def passive_inv0)
qed


subsection \<open>The render after an event\<close>

lemma transcriptSync_simps [simp]:
  "phase (transcriptSync now s) = phase s" "phaseRef (transcriptSync now s) = phaseRef s"
  "isEndingRef (transcriptSync now s) = isEndingRef s" "timerRef (transcriptSync now s) = timerRef s"
  "isAISpeaking (transcriptSync now s) = isAISpeaking s"
  "isUserSpeaking (transcriptSync now s) = isUserSpeaking s"
  "recorder (transcriptSync now s) = recorder s" "deepgram (transcriptSync now s) = deepgram s"
  "playerRef (transcriptSync now s) = playerRef s" "messages (transcriptSync now s) = messages s"
  "error (transcriptSync now s) = error s"
  "startPending (transcriptSync now s) = startPending s"
  "chatPending (transcriptSync now s) = chatPending s"
  "scorePending (transcriptSync now s) = scorePending s"
  by (simp_all add: transcriptSync_def Let_def)

lemma propagateDeepgramError_simps [simp]:
  "phase (propagateDeepgramError s) = phase s" "phaseRef (propagateDeepgramError s) = phaseRef s"
  "isEndingRef (propagateDeepgramError s) = isEndingRef s"
  "timerRef (propagateDeepgramError s) = timerRef s"
  "isAISpeaking (propagateDeepgramError s) = isAISpeaking s"
  "isUserSpeaking (propagateDeepgramError s) = isUserSpeaking s"
  "silenceTimerRef (propagateDeepgramError s) = silenceTimerRef s"
  "trace (propagateDeepgramError s) = trace s"
  "recorder (propagateDeepgramError s) = recorder s"
  "deepgram (propagateDeepgramError s) = deepgram s"
  "playerRef (propagateDeepgramError s) = playerRef s"
  "messages (propagateDeepgramError s) = messages s"
  "lastTranscriptRef (propagateDeepgramError s) = lastTranscriptRef s"
  "startPending (propagateDeepgramError s) = startPending s"
  "chatPending (propagateDeepgramError s) = chatPending s"
  "scorePending (propagateDeepgramError s) = scorePending s"
  by (simp_all add: propagateDeepgramError_def)

lemma propagateRecorderError_simps [simp]:
  "phase (propagateRecorderError s) = phase s" "phaseRef (propagateRecorderError s) = phaseRef s"
  "isEndingRef (propagateRecorderError s) = isEndingRef s"
  "timerRef (propagateRecorderError s) = timerRef s"
  "isAISpeaking (propagateRecorderError s) = isAISpeaking s"
  "isUserSpeaking (propagateRecorderError s) = isUserSpeaking s"
  "silenceTimerRef (propagateRecorderError s) = silenceTimerRef s"
  "trace (propagateRecorderError s) = trace s"
  "recorder (propagateRecorderError s) = recorder s"
  "deepgram (propagateRecorderError s) = deepgram s"
  "playerRef (propagateRecorderError s) = playerRef s"
  "messages (propagateRecorderError s) = messages s"
  "lastTranscriptRef (propagateRecorderError s) = lastTranscriptRef s"
  "startPending (propagateRecorderError s) = startPending s"
  "chatPending (propagateRecorderError s) = chatPending s"
  "scorePending (propagateRecorderError s) = scorePending s"
  by (simp_all add: propagateRecorderError_def)

lemma transcriptSync_inv0: "engine_inv0 s \<Longrightarrow> engine_inv0 (transcriptSync now s)"
  by (auto simp: engine_inv0_def timer_inv_def flags_inv_def counts_inv_def turn_inv_def
        waiting_def transcriptSync_def Let_def SILENCE_THRESHOLD_MS_def flag_ok_def)

lemma transcriptSync_text: "text_inv (transcriptSync now s)"
  by (auto simp: text_inv_def transcriptSync_def Let_def)

lemma propagate_inv0:
  "engine_inv0 s \<Longrightarrow> engine_inv0 (propagateDeepgramError s)"
  "engine_inv0 s \<Longrightarrow> engine_inv0 (propagateRecorderError s)"
  by (simp_all add: engine_inv0_def timer_inv_def flags_inv_def counts_inv_def turn_inv_def
        waiting_def)

lemma propagate_text [simp]:
  "text_inv (propagateDeepgramError s) = text_inv s"
  "text_inv (propagateRecorderError s) = text_inv s"
  by (simp_all add: text_inv_def)

lemma rerender_inv0: "engine_inv0 s \<Longrightarrow> engine_inv0 (rerender s)"
  by (simp add: engine_inv0_def timer_inv_def flags_inv_def counts_inv_def turn_inv_def
        waiting_def)

lemma rerender_text [simp]: "text_inv (rerender s) = text_inv s"
  by (simp add: text_inv_def)

lemma effects_inv0: "engine_inv0 s \<Longrightarrow> engine_inv0 (effects now s0 s)"
  unfolding effects_def Let_def
  by (simp add: transcriptSync_inv0 propagate_inv0 rerender_inv0)

lemma effects_simps [simp]:
  "phase (effects now s0 s) = phase s" "phaseRef (effects now s0 s) = phase s"
  "isEndingRef (effects now s0 s) = isEndingRef s" "timerRef (effects now s0 s) = timerRef s"
  "isAISpeaking (effects now s0 s) = isAISpeaking s"
  "isUserSpeaking (effects now s0 s) = isUserSpeaking s"
  "recorder (effects now s0 s) = recorder s" "deepgram (effects now s0 s) = deepgram s"
  "playerRef (effects now s0 s) = playerRef s" "messages (effects now s0 s) = messages s"
  "startPending (effects now s0 s) = startPending s"
  "chatPending (effects now s0 s) = chatPending s"
  "scorePending (effects now s0 s) = scorePending s"
  by (simp_all add: effects_def Let_def)

lemma effects_text:
  assumes "text_inv s0" "lastTranscriptRef s = lastTranscriptRef s0"
  shows "text_inv (effects now s0 s)"
proof (cases "transcript (deepgram s) \<noteq> transcript (deepgram s0)
               \<or> fullTranscript (deepgram s) \<noteq> fullTranscript (deepgram s0)
               \<or> isRecording (recorder s) \<noteq> isRecording (recorder s0)")
  case True
  then show ?thesis
    unfolding effects_def Let_def by (auto simp: transcriptSync_text)
next
  case False
  then have "text_inv s" using assms by (simp add: text_inv_def)
  then show ?thesis
    using False unfolding effects_def Let_def by auto
qed

lemma handleUserFinishedSpeaking_frame [simp]:
  "lastTranscriptRef (handleUserFinishedSpeaking cl now e s) = lastTranscriptRef s"
  "transcript (deepgram (handleUserFinishedSpeaking cl now e s)) = transcript (deepgram s)"
  "fullTranscript (deepgram (handleUserFinishedSpeaking cl now e s)) = fullTranscript (deepgram s)"
  "fullTranscriptRef (deepgram (handleUserFinishedSpeaking cl now e s))
     = fullTranscriptRef (deepgram s)"
  by (simp_all add: handleUserFinishedSpeaking_def Let_def)

lemma getAIResponse_resumed_frame [simp]:
  "lastTranscriptRef (getAIResponse_resumed cl outcome now e s) = lastTranscriptRef s"
  "transcript (deepgram (getAIResponse_resumed cl outcome now e s)) = transcript (deepgram s)"
  "fullTranscript (deepgram (getAIResponse_resumed cl outcome now e s))
     = fullTranscript (deepgram s)"
  "fullTranscriptRef (deepgram (getAIResponse_resumed cl outcome now e s))
     = fullTranscriptRef (deepgram s)"
  by (simp_all add: getAIResponse_resumed_def Let_def split: sum.splits prod.splits)

lemma startInterview_resumed_frame [simp]:
  "lastTranscriptRef (startInterview_resumed outcome now e s) = lastTranscriptRef s"
  "transcript (deepgram (startInterview_resumed outcome now e s)) = transcript (deepgram s)"
  "fullTranscript (deepgram (startInterview_resumed outcome now e s))
     = fullTranscript (deepgram s)"
  "fullTranscriptRef (deepgram (startInterview_resumed outcome now e s))
     = fullTranscriptRef (deepgram s)"
  by (simp_all add: startInterview_resumed_def Let_def split: sum.splits)

lemma handle_lastTranscriptRef [simp]:
  "lastTranscriptRef (handle now ev s) = lastTranscriptRef s"
  by (cases ev)
     (auto simp: handle_def startInterview_def endInterview_def timerTick_def
        silenceTimeout_def audioChunk_def recorderError_def Let_def
        split: option.splits list.splits)

lemma step_inv: "engine_inv s \<Longrightarrow> engine_inv (step tev s)"
  unfolding step_def engine_inv_def [of "effects _ _ _"]
  by (simp add: handle_inv0 effects_inv0 effects_text engine_inv_def)

lemma run_inv: "engine_inv s \<Longrightarrow> engine_inv (run s es)"
  by (induction es arbitrary: s) (simp_all add: step_inv)

lemma reachable_inv: "engine_inv (run useInterviewEngine es)"
  by (simp add: run_inv engine_inv_init)

lemma run_append: "run s (xs @ ys) = run (run s xs) ys"
  by (induction xs arbitrary: s) simp_all

section \<open>Results: speaking flags\<close>



section \<open>Results: termination\<close>

lemma handle_ending:
  "engine_inv s \<Longrightarrow> isEndingRef s \<Longrightarrow> isEndingRef (handle now ev s)"
  by (cases ev)
     (auto simp: handle_def engine_inv_def engine_inv0_def turn_inv_def startInterview_def
        startInterview_resumed_def endInterview_def timerTick_def silenceTimeout_def
        handleUserFinishedSpeaking_def getAIResponse_resumed_def audioChunk_def
        recorderError_def Let_def split: option.splits list.splits sum.splits prod.splits)

lemma step_ending: "engine_inv s \<Longrightarrow> isEndingRef s \<Longrightarrow> isEndingRef (step tev s)"
  by (simp add: step_def handle_ending)

lemma run_ending: "engine_inv s \<Longrightarrow> isEndingRef s \<Longrightarrow> isEndingRef (run s es)"
  by (induction es arbitrary: s) (simp_all add: step_ending step_inv)

text \<open>
  C10. Once the end routine has begun it does nothing when called again, whatever
  it is called from: it returns the state as it is, and the flag it sets stays set
  in every later state of the session; a later stop request changes nothing and a
  later tick of the interval records the elapsed time only. So in every session
  the score request, the transition to \<open>completed\<close>, the stop of the playback queue
  and the cancelling of the silence timer by the end routine each happen at most
  once.
\<close>

theorem C10_end_at_most_once:
  "(isEndingRef s \<longrightarrow> endInterviewInternal rec e s = s) \<and>
   isEndingRef (endInterviewInternal rec e s) \<and>
   (isEndingRef (run useInterviewEngine es) \<longrightarrow>
      isEndingRef (run useInterviewEngine (es @ es')) \<and>
      handle now (EndInterview e) (run useInterviewEngine (es @ es'))
        = run useInterviewEngine (es @ es') \<and>
      trace (handle now (TimerTick e) (run useInterviewEngine (es @ es')))
        = trace (run useInterviewEngine (es @ es')) \<and>
      phase (handle now (TimerTick e) (run useInterviewEngine (es @ es')))
        = phase (run useInterviewEngine (es @ es'))) \<and>
   count_list (trace (run useInterviewEngine es)) CallScore \<le> 1 \<and>
   count_list (trace (run useInterviewEngine es)) (SetPhase Completed) \<le> 1 \<and>
   count_list (trace (run useInterviewEngine es)) StopPlayback \<le> 1 \<and>
   count_list (trace (run useInterviewEngine es)) CancelSilence \<le> 1"
proof -
  have a: "isEndingRef s \<longrightarrow> endInterviewInternal rec e s = s"
    by (simp add: endInterviewInternal_def)
  have b: "isEndingRef (endInterviewInternal rec e s)" by simp
  have c: "isEndingRef (run useInterviewEngine (es @ es')) \<and>
      handle now (EndInterview e) (run useInterviewEngine (es @ es'))
        = run useInterviewEngine (es @ es') \<and>
      trace (handle now (TimerTick e) (run useInterviewEngine (es @ es')))
        = trace (run useInterviewEngine (es @ es')) \<and>
      phase (handle now (TimerTick e) (run useInterviewEngine (es @ es')))
        = phase (run useInterviewEngine (es @ es'))"
    if "isEndingRef (run useInterviewEngine es)"
  proof -
    have e1: "isEndingRef (run useInterviewEngine (es @ es'))"
      using run_ending [OF reachable_inv that] by (simp add: run_append)
    then show ?thesis
      by (simp add: handle_def endInterview_def endInterviewInternal_def timerTick_def Let_def)
  qed
  have d: "counts_inv (run useInterviewEngine es)"
    using reachable_inv [of es] by (simp add: engine_inv_def engine_inv0_def)
  show ?thesis
    using a b c d unfolding counts_inv_def by (auto split: if_splits)
qed

theorem C10_end_at_most_once_witness:
  "isEndingRef (run useInterviewEngine (listening @ [(5000, EndInterview ok_env)])) \<and>
   isEndingRef (run useInterviewEngine
      ((listening @ [(5000, EndInterview ok_env)])
        @ [(6000, EndInterview ok_env), (300000, TimerTick ok_env), (300500, ScoreResponded True)])) \<and>
   count_list (trace (run useInterviewEngine
      ((listening @ [(5000, EndInterview ok_env)])
        @ [(6000, EndInterview ok_env), (300000, TimerTick ok_env), (300500, ScoreResponded True)])))
      CallScore = 1 \<and>
   count_list (trace (run useInterviewEngine
      ((listening @ [(5000, EndInterview ok_env)])
        @ [(6000, EndInterview ok_env), (300000, TimerTick ok_env), (300500, ScoreResponded True)])))
      (SetPhase Completed) = 1"
proof -
  have h: "isEndingRef (run useInterviewEngine (listening @ [(5000, EndInterview ok_env)]))"
    by code_simp
  have c: "count_list (trace (run useInterviewEngine
      ((listening @ [(5000, EndInterview ok_env)])
        @ [(6000, EndInterview ok_env), (300000, TimerTick ok_env), (300500, ScoreResponded True)])))
      CallScore = 1"
    "count_list (trace (run useInterviewEngine
      ((listening @ [(5000, EndInterview ok_env)])
        @ [(6000, EndInterview ok_env), (300000, TimerTick ok_env), (300500, ScoreResponded True)])))
      (SetPhase Completed) = 1"
    by code_simp+
  show ?thesis
    using C10_end_at_most_once [of _ _ _ "listening @ [(5000, EndInterview ok_env)]"
        "[(6000, EndInterview ok_env), (300000, TimerTick ok_env), (300500, ScoreResponded True)]"]
      h c
    by blast
qed


section \<open>Results: the session deadline\<close>

lemma transcriptSync_calls [simp]:
  "phases_of (trace (transcriptSync now s)) = phases_of (trace s)"
  "chat_calls (trace (transcriptSync now s)) = chat_calls (trace s)"
  by (simp_all add: transcriptSync_def Let_def)

lemma effects_calls [simp]:
  "phases_of (trace (effects now s0 s)) = phases_of (trace s)"
  "chat_calls (trace (effects now s0 s)) = chat_calls (trace s)"
  by (simp_all add: effects_def Let_def)








section \<open>Results: the stop request\<close>

text \<open>
  C4. In the session \<open>stop_then_chat_fails\<close> the page asks to stop while the chat
  request is in flight (phase \<open>processing\<close>). The end routine tears down in the
  order of the claim (the recording was stopped before the chat request, so it
  is not stopped again) and, when the score request is answered, sets
  \<open>completed\<close>. Then the chat request fails and the rest of \<open>getAIResponse\<close> records
  the error and sets \<open>error\<close>: the session rests in \<open>error\<close>, not in \<open>completed\<close>. When
  the chat request is answered instead (\<open>stop_then_chat_answers\<close>), the phase goes
  back to \<open>interviewing\<close>, the engine listens again, and a further stop request does
  nothing.
\<close>

theorem C4_stop_while_processing:
  "phase (run useInterviewEngine thinking) = Processing \<and>
   \<not> isEndingRef (run useInterviewEngine thinking) \<and>
   trace (run useInterviewEngine (thinking @ [(3500, EndInterview ok_env)]))
     = trace (run useInterviewEngine thinking)
       @ [SetPhase Processing, Disconnect, StopPlayback, CancelSilence,
          Flags False False, Flags False False, CallScore] \<and>
   phase (run useInterviewEngine
            (thinking @ [(3500, EndInterview ok_env), (4000, ScoreResponded True)])) = Completed \<and>
   phase (run useInterviewEngine stop_then_chat_fails) = Error \<and>
   error (run useInterviewEngine stop_then_chat_fails) = Some AiResponseFailed \<and>
   phases_of (trace (run useInterviewEngine stop_then_chat_fails))
     = [Connecting, Interviewing, Processing, Processing, Completed, Error] \<and>
   phase (run useInterviewEngine stop_then_chat_answers) = Interviewing \<and>
   isUserSpeaking (run useInterviewEngine stop_then_chat_answers) \<and>
   isRecording (recorder (run useInterviewEngine stop_then_chat_answers)) \<and>
   phase (run useInterviewEngine (stop_then_chat_answers @ [(9000, EndInterview ok_env)]))
     = Interviewing"
  by code_simp

section \<open>Results: end-of-turn detection\<close>






section \<open>Results: failing collaborators\<close>




section \<open>Results: text carried over between turns\<close>

lemma socket_keeps_final_text:
  "\<exists>x. fullTranscriptRef (socket sev d) = fullTranscriptRef d @ x"
  by (cases sev)
     (auto simp: socket_def ws_onopen_def ws_onmessage_def ws_onerror_def ws_onclose_def Let_def
        split: dg_message.splits option.splits list.splits)

lemma handle_keeps_final_text:
  "\<exists>x. fullTranscriptRef (deepgram (handle now ev s)) = fullTranscriptRef (deepgram s) @ x"
proof (cases ev)
  case (Socket sev)
  then show ?thesis using socket_keeps_final_text [of sev "deepgram s"] by (simp add: handle_def)
qed (auto simp: handle_def startInterview_def endInterview_def timerTick_def silenceTimeout_def
       audioChunk_def recorderError_def Let_def split: option.splits list.splits)

text \<open>
  C2. \<open>reset\<close> does clear the interim and the finalized text. But no event of the
  engine ever shortens the finalized text of the client: \<open>reset\<close> is not called. In
  the session \<open>two_turns\<close> the respondent says \<open>A\<close> in the first listening window and
  \<open>B\<close> in the second; the utterance appended for the second turn is \<open>AB\<close> when the
  callback holds the current \<open>fullTranscript\<close>, \<open>A\<close> when it holds the one from the
  start of the window, and \<open>AB\<close> again (from \<open>lastTranscriptRef\<close>) when it holds an
  empty one. Each contains the text of the first turn.
\<close>

theorem C2_finalized_text_carries_over:
  "transcript (reset d) = [] \<and> fullTranscript (reset d) = [] \<and> fullTranscriptRef (reset d) = [] \<and>
   (\<exists>x. fullTranscriptRef (deepgram (step tev s)) = fullTranscriptRef (deepgram s) @ x) \<and>
   map content (messages (run useInterviewEngine (two_turns ''AB'')))
     = [''Hello'', ''A'', ''Next?'', ''AB'', ''Next?''] \<and>
   map content (messages (run useInterviewEngine (two_turns ''A'')))
     = [''Hello'', ''A'', ''Next?'', ''A'', ''Next?''] \<and>
   map content (messages (run useInterviewEngine (two_turns [])))
     = [''Hello'', ''A'', ''Next?'', ''AB'', ''Next?''] \<and>
   map role (messages (run useInterviewEngine (two_turns ''AB'')))
     = [AI, Respondent, AI, Respondent, AI]"
proof -
  have r: "transcript (reset d) = [] \<and> fullTranscript (reset d) = [] \<and>
           fullTranscriptRef (reset d) = []"
    by (simp add: reset_def)
  have k: "\<exists>x. fullTranscriptRef (deepgram (step tev s)) = fullTranscriptRef (deepgram s) @ x"
    using handle_keeps_final_text [of "fst tev" "snd tev" s] by (simp add: step_def)
  have c: "map content (messages (run useInterviewEngine (two_turns ''AB'')))
     = [''Hello'', ''A'', ''Next?'', ''AB'', ''Next?'']"
    "map content (messages (run useInterviewEngine (two_turns ''A'')))
     = [''Hello'', ''A'', ''Next?'', ''A'', ''Next?'']"
    "map content (messages (run useInterviewEngine (two_turns [])))
     = [''Hello'', ''A'', ''Next?'', ''AB'', ''Next?'']"
    "map role (messages (run useInterviewEngine (two_turns ''AB'')))
     = [AI, Respondent, AI, Respondent, AI]"
    by code_simp+
  show ?thesis using r k c by blast
qed

end
